theory Spec2Isabelle
  imports Complex_Main "HOL-Library.AList" "HOL-Library.Word"
begin

section \<open>Real-time audio relay: data model\<close>

text \<open>
  The development follows \<^verbatim>\<open>src/websocket/handler.js\<close> (the connection gateway),
  the Deepgram streaming service, \<^verbatim>\<open>validateAudioStream\<close> of the validation
  utilities and \<^verbatim>\<open>sanitizeInput\<close> of \<^verbatim>\<open>src/utils/security.js\<close>.

  Conventions of the embedding:
  \<^item> a JavaScript string is a \<^typ>\<open>string\<close>; every code unit the source tests for is
    ASCII, and a code unit outside Latin-1 has no representation here;
  \<^item> a \<^verbatim>\<open>Buffer\<close> is a list of bytes;
  \<^item> \<^verbatim>\<open>Date.now()\<close> and \<^verbatim>\<open>startTime.getTime()\<close> are integers (milliseconds);
  \<^item> the counters \<^verbatim>\<open>audioChunks\<close> and \<^verbatim>\<open>totalBytes\<close> are natural numbers: a
    JavaScript number adds integers exactly below \<open>2^53\<close>, which no connection reaches;
  \<^item> every call on an external collaborator (the client socket, the backend stream, the
    notification service, the logger) is recorded as an \<open>effect\<close>, in call order.
\<close>

type_synonym buffer = "8 word list"

datatype log_level = LogDebug | LogInfo | LogWarn | LogError

text \<open>The errors pushed by \<^verbatim>\<open>validateAudioStream\<close>, with the numbers their texts carry.\<close>

datatype chunk_error =
    InvalidChunkFormat
  | EmptyAudioChunk
  | ChunkTooLarge nat nat
  | ChunkTooSmall nat nat

record stream_options =
  maxChunkSize :: nat
  minChunkSize :: nat
  allowEmpty :: bool

text \<open>The object built by the \<^verbatim>\<open>transcript\<close> listener of the streaming service.\<close>

record transcript_result =
  r_sessionId :: string
  r_conversationId :: string
  r_transcript :: string
  r_confidence :: real
  r_is_final :: bool
  r_duration :: real
  r_start :: real
  r_channel :: nat
  r_words :: "string list"
  r_timestamp :: int

text \<open>The argument of \<^verbatim>\<open>sendToSlack\<close>.\<close>

record slack_data =
  s_channel :: string
  s_transcript :: string
  s_confidence :: real
  s_sessionId :: string
  s_conversationId :: string
  s_duration :: real

text \<open>The JSON messages the gateway writes to the client socket.\<close>

datatype server_msg =
    MsgConnected string string string
  | MsgTranscript transcript_result
  | MsgStatus string string
  | MsgError string

datatype effect =
    WsSend server_msg
  | WsClose nat string
  | DgOpen string string "string list"
  | DgSend buffer
  | DgClose
  | OnTranscript transcript_result
  | OnError
  | SlackSend slack_data
  | Log log_level string

text \<open>
  The handle returned by \<^verbatim>\<open>createStreamingConnection\<close> closes over one backend
  stream; the only part of the stream the code reads is \<^verbatim>\<open>connection.readyState\<close>
  (0 connecting, 1 open, 2 closing, 3 closed).
\<close>

record handle =
  readyState :: nat

record params =
  channel :: string
  session :: string
  conversation :: string
  user :: string
  language :: string
  model :: string

text \<open>
  \<^verbatim>\<open>connectionState\<close> of \<^verbatim>\<open>setupWebSocket\<close>. The field \<open>ws\<close> is the
  \<^verbatim>\<open>readyState\<close> of the client socket (1 is \<^verbatim>\<open>WebSocket.OPEN\<close>); the field
  \<^verbatim>\<open>id\<close> is \<open>cs_id\<close>.
\<close>

record connectionState =
  cs_id :: string
  ws :: nat
  params :: params
  deepgramConnection :: "handle option"
  isActive :: bool
  startTime :: int
  audioChunks :: nat
  totalBytes :: nat

section \<open>The backend handle\<close>

definition isConnected :: "handle \<Rightarrow> bool" where
  "isConnected h = (readyState h = 1)"

definition sendAudio :: "handle \<Rightarrow> buffer \<Rightarrow> effect list" where
  "sendAudio h audioData = (if readyState h = 1 then [DgSend audioData] else [])"

text \<open>
  Modelled from the spec: the backend stream itself is the external speech SDK, which is
  not part of the repository. Its state machine is
  \<open>Opening -> Open -> Closing -> Closed\<close>, and \<open>close\<close> requests shutdown and is
  idempotent: a stream that is connecting or open starts closing, a stream that is
  closing or closed stays as it is.
\<close>

definition backend_close :: "nat \<Rightarrow> nat" where
  "backend_close rs = (if rs = 0 \<or> rs = 1 then 2 else rs)"

definition close_handle :: "handle \<Rightarrow> handle \<times> effect list" where
  "close_handle h = (h\<lparr>readyState := backend_close (readyState h)\<rparr>, [DgClose])"

section \<open>Audio chunk validation\<close>

text \<open>
  \<^verbatim>\<open>validateAudioStream(chunk, options)\<close> for a chunk that is a \<^verbatim>\<open>Buffer\<close>. The
  silence-ratio diagnostic at the end of the source function only writes a debug log
  line and does not touch the result.
\<close>

definition validateAudioStream :: "buffer \<Rightarrow> stream_options \<Rightarrow> bool \<times> chunk_error list" where
  "validateAudioStream chunk opts =
     (if length chunk = 0 \<and> \<not> allowEmpty opts then (False, [EmptyAudioChunk])
      else
        let e1 = (if length chunk > maxChunkSize opts
                  then [ChunkTooLarge (length chunk) (maxChunkSize opts)] else []);
            e2 = (if length chunk < minChunkSize opts \<and> length chunk > 0
                  then [ChunkTooSmall (length chunk) (minChunkSize opts)] else []);
            errors = e1 @ e2
        in (errors = [], errors))"

text \<open>The options literal passed by \<^verbatim>\<open>handleWebSocketMessage\<close>.\<close>

definition handler_options :: stream_options where
  "handler_options = \<lparr>maxChunkSize = 8192, minChunkSize = 160, allowEmpty = False\<rparr>"

section \<open>Message handling on one connection\<close>

text \<open>
  The data the handler distinguishes: a string, a \<^verbatim>\<open>Buffer\<close>, anything else. For a
  string, the model carries what \<^verbatim>\<open>JSON.parse\<close> makes of it: \<open>None\<close> when it throws,
  \<open>JNull\<close> for the value \<^verbatim>\<open>null\<close> (reading \<^verbatim>\<open>.type\<close> of it throws), and otherwise
  the \<^verbatim>\<open>type\<close> property when it is a string. Which of these the client socket hands
  over for a frame is \<open>received\<close>, below.
\<close>

datatype json_message = JNull | JValue "string option"

datatype ws_data = Str "json_message option" | Buf buffer | OtherData

datatype js_error = SyntaxError | TypeError | RangeError | BackendError

text \<open>
  \<^verbatim>\<open>handleWebSocketMessage(connectionState, data)\<close>: the outcome (\<open>Inl\<close> for the
  rethrown exception), the connection state after the call and the calls made.
\<close>

definition handleWebSocketMessage ::
  "connectionState \<Rightarrow> ws_data \<Rightarrow> (js_error + unit) \<times> connectionState \<times> effect list" where
  "handleWebSocketMessage cs data =
     (case data of
        Str None \<Rightarrow>
          (Inl SyntaxError, cs, [Log LogError (''Error processing message for connection '' @ cs_id cs)])
      | Str (Some JNull) \<Rightarrow>
          (Inl TypeError, cs, [Log LogError (''Error processing message for connection '' @ cs_id cs)])
      | Str (Some (JValue t)) \<Rightarrow>
          (if t = Some ''start'' then
             (Inr (), cs,
              [Log LogInfo (''Starting transcription for connection '' @ cs_id cs),
               WsSend (MsgStatus ''started'' ''Transcription started'')])
           else if t = Some ''stop'' then
             (case deepgramConnection cs of
                Some h \<Rightarrow>
                  (Inr (), cs\<lparr>deepgramConnection := Some (fst (close_handle h))\<rparr>,
                   [Log LogInfo (''Stopping transcription for connection '' @ cs_id cs)]
                   @ snd (close_handle h)
                   @ [WsSend (MsgStatus ''stopped'' ''Transcription stopped'')])
              | None \<Rightarrow>
                  (Inr (), cs,
                   [Log LogInfo (''Stopping transcription for connection '' @ cs_id cs),
                    WsSend (MsgStatus ''stopped'' ''Transcription stopped'')]))
           else if t = Some ''config'' then
             (Inr (), cs, [Log LogDebug (''Config update for connection '' @ cs_id cs)])
           else
             (Inr (), cs, [Log LogWarn ''Unknown message type'']))
      | Buf b \<Rightarrow>
          (if \<not> fst (validateAudioStream b handler_options) then
             (Inr (), cs, [Log LogWarn (''Invalid audio data from '' @ cs_id cs)])
           else
             let cs' = cs\<lparr>audioChunks := audioChunks cs + 1,
                          totalBytes := totalBytes cs + length b\<rparr>
             in (case deepgramConnection cs of
                   Some h \<Rightarrow>
                     (if isConnected h then (Inr (), cs', sendAudio h b)
                      else (Inr (), cs', [Log LogWarn (''Deepgram connection not ready for '' @ cs_id cs)]))
                 | None \<Rightarrow>
                     (Inr (), cs', [Log LogWarn (''Deepgram connection not ready for '' @ cs_id cs)])))
      | OtherData \<Rightarrow> (Inr (), cs, []))"

text \<open>
  The \<^verbatim>\<open>ws.on('message', ...)\<close> listener of \<^verbatim>\<open>setupWebSocket\<close>: an exception of
  the handler is logged and answered with an error message.
\<close>

definition on_message :: "connectionState \<Rightarrow> ws_data \<Rightarrow> connectionState \<times> effect list" where
  "on_message cs data =
     (case handleWebSocketMessage cs data of
        (Inr u, cs', es) \<Rightarrow> (cs', es)
      | (Inl e, cs', es) \<Rightarrow>
          (cs', es @ [Log LogError (''Error handling WebSocket message for '' @ cs_id cs),
                      WsSend (MsgError ''Failed to process audio data'')]))"

text \<open>The frames a call hands to the backend stream, and the messages it writes to the client.\<close>

fun forwarded :: "effect list \<Rightarrow> buffer list" where
  "forwarded [] = []"
| "forwarded (DgSend b # es) = b # forwarded es"
| "forwarded (e # es) = forwarded es"

fun client_messages :: "effect list \<Rightarrow> server_msg list" where
  "client_messages [] = []"
| "client_messages (WsSend m # es) = m # client_messages es"
| "client_messages (e # es) = client_messages es"

fun closes_client :: "effect list \<Rightarrow> bool" where
  "closes_client [] = False"
| "closes_client (WsClose c r # es) = True"
| "closes_client (e # es) = closes_client es"

text \<open>The condition \<^verbatim>\<open>deepgramConnection && deepgramConnection.isConnected()\<close>.\<close>

definition handle_ready :: "connectionState \<Rightarrow> bool" where
  "handle_ready cs = (case deepgramConnection cs of Some h \<Rightarrow> isConnected h | None \<Rightarrow> False)"

section \<open>Strings and the regular expressions of the sanitizer\<close>

definition code :: "char \<Rightarrow> nat" where
  "code c = of_char c"

text \<open>The white space of \<^verbatim>\<open>trim\<close> and of \<^verbatim>\<open>\s\<close>.\<close>

definition is_space :: "char \<Rightarrow> bool" where
  "is_space c = (code c \<in> {9, 10, 11, 12, 13, 32, 160})"

definition is_upper :: "char \<Rightarrow> bool" where
  "is_upper c = (65 \<le> code c \<and> code c \<le> 90)"

definition is_lower :: "char \<Rightarrow> bool" where
  "is_lower c = (97 \<le> code c \<and> code c \<le> 122)"

definition is_digit :: "char \<Rightarrow> bool" where
  "is_digit c = (48 \<le> code c \<and> code c \<le> 57)"

definition is_alnum :: "char \<Rightarrow> bool" where
  "is_alnum c = (is_lower c \<or> is_upper c \<or> is_digit c)"

text \<open>The class \<^verbatim>\<open>\w\<close>.\<close>

definition is_word :: "char \<Rightarrow> bool" where
  "is_word c = (is_alnum c \<or> c = CHR ''_'')"

text \<open>The class \<^verbatim>\<open>[\x00-\x1F\x7F]\<close>.\<close>

definition is_control :: "char \<Rightarrow> bool" where
  "is_control c = (code c \<le> 31 \<or> code c = 127)"

text \<open>Case folding of the \<^verbatim>\<open>i\<close> flag: it only identifies the ASCII letters.\<close>

definition lower :: "char \<Rightarrow> char" where
  "lower c = (if is_upper c then char_of (code c + 32) else c)"

definition trim :: "string \<Rightarrow> string" where
  "trim s = rev (dropWhile is_space (rev (dropWhile is_space s)))"

text \<open>\<^verbatim>\<open>s.replace(/c/g, r)\<close> for a single character \<open>c\<close>.\<close>

definition replace_all :: "char \<Rightarrow> string \<Rightarrow> string \<Rightarrow> string" where
  "replace_all c r s = concat (map (\<lambda>x. if x = c then r else [x]) s)"

text \<open>Whether the literal \<open>p\<close> matches at the start of the string, letters in either case.\<close>

fun ci_prefix :: "string \<Rightarrow> string \<Rightarrow> bool" where
  "ci_prefix [] s = True"
| "ci_prefix (p # ps) [] = False"
| "ci_prefix (p # ps) (c # cs) = (lower p = lower c \<and> ci_prefix ps cs)"

text \<open>
  \<^verbatim>\<open>s.replace(/(a1|a2|...)/i, '')\<close> for literal alternatives, without the \<^verbatim>\<open>g\<close>
  flag: the leftmost position where an alternative matches, the first alternative that
  matches there, removed once.
\<close>

fun replace_first :: "string list \<Rightarrow> string \<Rightarrow> string" where
  "replace_first alts [] = []"
| "replace_first alts (c # cs) =
     (case find (\<lambda>k. ci_prefix k (c # cs)) alts of
        Some k \<Rightarrow> drop (length k) (c # cs)
      | None \<Rightarrow> c # replace_first alts cs)"

text \<open>
  \<^verbatim>\<open>s.replace(re, '')\<close> with the \<^verbatim>\<open>g\<close> flag, for an expression that never matches
  the empty string: \<open>m\<close> gives the length of the match at the start of a string, and the
  counter is the number of characters of the current match still to drop.
\<close>

fun remove_matches :: "(string \<Rightarrow> nat option) \<Rightarrow> nat \<Rightarrow> string \<Rightarrow> string" where
  "remove_matches m skip [] = []"
| "remove_matches m (Suc n) (c # cs) = remove_matches m n cs"
| "remove_matches m 0 (c # cs) =
     (case m (c # cs) of
        Some (Suc k) \<Rightarrow> remove_matches m k cs
      | _ \<Rightarrow> c # remove_matches m 0 cs)"

text \<open>The offset of the first match of the literal \<open>p\<close> in the string.\<close>

fun find_ci :: "string \<Rightarrow> string \<Rightarrow> nat option" where
  "find_ci p [] = (if p = [] then Some 0 else None)"
| "find_ci p (c # cs) =
     (if ci_prefix p (c # cs) then Some 0 else map_option Suc (find_ci p cs))"

text \<open>\<^verbatim>\<open>/<script[^>]*>[\s\S]*?<\/script>/gi\<close> at the start of the string.\<close>

definition script_tag :: "string \<Rightarrow> nat option" where
  "script_tag s =
     (if ci_prefix ''<script'' s then
        let r = drop 7 s; n1 = length (takeWhile (\<lambda>c. c \<noteq> CHR ''>'') r) in
        if n1 < length r then
          (case find_ci ''</script>'' (drop (Suc n1) r) of
             Some n2 \<Rightarrow> Some (7 + n1 + 1 + n2 + 9)
           | None \<Rightarrow> None)
        else None
      else None)"

text \<open>\<^verbatim>\<open>/javascript:/gi\<close> at the start of the string.\<close>

definition javascript_colon :: "string \<Rightarrow> nat option" where
  "javascript_colon s = (if ci_prefix ''javascript:'' s then Some 11 else None)"

text \<open>\<^verbatim>\<open>/on\w+\s*=/gi\<close> at the start of the string.\<close>

definition on_handler :: "string \<Rightarrow> nat option" where
  "on_handler s =
     (if ci_prefix ''on'' s then
        let r = drop 2 s; n1 = length (takeWhile is_word r);
            r' = drop n1 r; n2 = length (takeWhile is_space r')
        in if 0 < n1 \<and> n2 < length r' \<and> r' ! n2 = CHR ''='' then Some (2 + n1 + n2 + 1)
           else None
      else None)"

section \<open>sanitizeInput\<close>

text \<open>
  A value handed to \<^verbatim>\<open>sanitizeInput\<close>. The parsed query string gives a string, an
  array of strings (a repeated key) or nothing; \<open>JOther\<close> stands for any other value
  that is not a string.
\<close>

datatype js_value = Undefined | JString string | JArray "string list" | JOther

record sanitize_options =
  maxLength :: nat
  allowHtml :: bool
  allowSpecialChars :: bool

definition escape_html :: "string \<Rightarrow> string" where
  "escape_html s =
     replace_all CHR ''/'' ''&#x2F;''
       (replace_all (CHR 0x27) ''&#x27;''
         (replace_all (CHR 0x22) ''&quot;''
           (replace_all CHR ''>'' ''&gt;''
             (replace_all CHR ''<'' ''&lt;'' s))))"

text \<open>The alternatives of the two \<^verbatim>\<open>sqlPatterns\<close>, in the order of the source.\<close>

definition sqlPattern1 :: "string list" where
  "sqlPattern1 = [[CHR 0x27], ''--'', '';'', ''|'', ''|'', ''*'', ''*'']"

definition sqlPattern2 :: "string list" where
  "sqlPattern2 = [''union'', ''select'', ''insert'', ''update'', ''delete'', ''drop'', ''create'',
                  ''alter'', ''exec'', ''execute'']"

text \<open>
  The body of \<^verbatim>\<open>sanitizeInput\<close> for a non-empty string. Each
  \<^verbatim>\<open>if (pattern.test(s)) s = s.replace(pattern, '')\<close> is the replacement alone, which
  is the identity where the pattern has no match; the warning it logs is left out.
\<close>

definition sanitize_string :: "string \<Rightarrow> sanitize_options \<Rightarrow> string" where
  "sanitize_string input opts =
     (let s1 = trim input;
          s2 = (if length s1 > maxLength opts then take (maxLength opts) s1 else s1);
          s3 = (if \<not> allowHtml opts then escape_html s2 else s2);
          s4 = (if \<not> allowSpecialChars opts then
                  filter (\<lambda>c. is_alnum c \<or> is_space c \<or> c \<in> set ''-_@#.'') s3
                else s3);
          s5 = filter (\<lambda>c. \<not> is_control c) s4;
          s6 = replace_first sqlPattern1 s5;
          s7 = replace_first sqlPattern2 s6;
          s8 = remove_matches script_tag 0 s7;
          s9 = remove_matches javascript_colon 0 s8
      in remove_matches on_handler 0 s9)"

definition sanitizeInput :: "js_value \<Rightarrow> sanitize_options \<Rightarrow> string" where
  "sanitizeInput input opts =
     (case input of
        JString s \<Rightarrow> (if s = [] then [] else sanitize_string s opts)
      | _ \<Rightarrow> [])"

text \<open>The characters claim C9 excludes from a sanitized value.\<close>

definition forbidden :: "char \<Rightarrow> bool" where
  "forbidden c = (c = CHR ''<'' \<or> c = CHR ''>'' \<or> c = CHR 0x22 \<or> is_control c)"

section \<open>Connection parameters\<close>

record query =
  q_channel :: js_value
  q_session :: js_value
  q_conversation :: js_value
  q_user :: js_value
  q_language :: js_value
  q_model :: js_value

text \<open>The options \<^verbatim>\<open>{ maxLength: n }\<close>, the other two at their defaults.\<close>

definition max_len :: "nat \<Rightarrow> sanitize_options" where
  "max_len n = \<lparr>maxLength = n, allowHtml = False, allowSpecialChars = True\<rparr>"

definition sanitizeConnectionParams :: "query \<Rightarrow> params" where
  "sanitizeConnectionParams q =
     \<lparr>channel = sanitizeInput (q_channel q) (max_len 100),
      session = sanitizeInput (q_session q) (max_len 100),
      conversation = sanitizeInput (q_conversation q) (max_len 100),
      user = sanitizeInput (q_user q) (max_len 100),
      language = sanitizeInput (q_language q) (max_len 10),
      model = sanitizeInput (q_model q) (max_len 50)\<rparr>"

text \<open>\<^verbatim>\<open>/^[#@]?[a-zA-Z0-9_-]+$/\<close>.\<close>

definition channel_format :: "string \<Rightarrow> bool" where
  "channel_format s =
     (let r = (case s of [] \<Rightarrow> [] | c # cs \<Rightarrow> if c = CHR ''#'' \<or> c = CHR ''@'' then cs else s)
      in r \<noteq> [] \<and> list_all (\<lambda>c. is_alnum c \<or> c = CHR ''_'' \<or> c = CHR ''-'') r)"

text \<open>\<^verbatim>\<open>/^[a-z]{2}(-[A-Z]{2})?$/\<close>.\<close>

definition language_format :: "string \<Rightarrow> bool" where
  "language_format s =
     ((length s = 2 \<and> is_lower (s ! 0) \<and> is_lower (s ! 1))
      \<or> (length s = 5 \<and> is_lower (s ! 0) \<and> is_lower (s ! 1) \<and> s ! 2 = CHR ''-''
          \<and> is_upper (s ! 3) \<and> is_upper (s ! 4)))"

definition validModels :: "string list" where
  "validModels = [''nova-2'', ''nova'', ''enhanced'', ''base'']"

definition validateConnectionParams :: "params \<Rightarrow> bool \<times> string list" where
  "validateConnectionParams ps =
     (let e1 = (if channel ps = [] then [''channel parameter is required''] else []);
          e2 = (if session ps = [] then [''session parameter is required''] else []);
          e3 = (if channel ps \<noteq> [] \<and> \<not> channel_format (channel ps)
                then [''invalid channel format''] else []);
          e4 = (if language ps \<noteq> [] \<and> \<not> language_format (language ps)
                then [''invalid language format''] else []);
          e5 = (if model ps \<noteq> [] \<and> model ps \<notin> set validModels
                then [''invalid model specified''] else []);
          errors = e1 @ e2 @ e3 @ e4 @ e5
      in (errors = [], errors))"

text \<open>\<^verbatim>\<open>errors.join(sep)\<close>.\<close>

fun join :: "string \<Rightarrow> string list \<Rightarrow> string" where
  "join sep [] = []"
| "join sep [x] = x"
| "join sep (x # y # ys) = x @ sep @ join sep (y # ys)"

section \<open>The streaming transcription service\<close>

text \<open>
  The options of \<^verbatim>\<open>createStreamingConnection\<close>. The two callbacks are the caller's:
  the model records whether one was passed and, as an effect, each call of it.
\<close>

record streaming_options =
  sessionId :: string
  slackChannel :: string
  conversationId :: string
  onTranscript :: bool
  onError :: bool
  opt_language :: "string option"
  opt_model :: "string option"

text \<open>
  An entry of \<^verbatim>\<open>activeConnections\<close>; its \<^verbatim>\<open>connection\<close> field, the backend stream
  itself, is the stream of the handle returned to the caller.
\<close>

record connectionData =
  cd_sessionId :: string
  cd_slackChannel :: string
  cd_conversationId :: string
  cd_createdAt :: int

text \<open>A JavaScript \<^verbatim>\<open>Map\<close> keeps its keys in insertion order, one entry for a key.\<close>

type_synonym service = "(string \<times> connectionData) list"

text \<open>
  \<^verbatim>\<open>createStreamingConnection(options)\<close>. The argument \<open>live_ok\<close> says whether
  \<^verbatim>\<open>deepgram.listen.live\<close> returns a stream (which then is connecting) or throws.
\<close>

definition createStreamingConnection ::
  "streaming_options \<Rightarrow> bool \<Rightarrow> int \<Rightarrow> service \<Rightarrow> (js_error + handle) \<times> service \<times> effect list" where
  "createStreamingConnection opts live_ok now conns =
     (let lang = (case opt_language opts of None \<Rightarrow> ''en-US'' | Some l \<Rightarrow> l);
          mdl = (case opt_model opts of None \<Rightarrow> ''nova-2'' | Some m \<Rightarrow> m);
          tag = filter (\<lambda>t. t \<noteq> []) [sessionId opts, conversationId opts]
      in if live_ok then
           (Inr \<lparr>readyState = 0\<rparr>,
            AList.update (sessionId opts)
              \<lparr>cd_sessionId = sessionId opts, cd_slackChannel = slackChannel opts,
               cd_conversationId = conversationId opts, cd_createdAt = now\<rparr> conns,
            [DgOpen mdl lang tag])
         else
           (Inl BackendError, conns,
            [DgOpen mdl lang tag, Log LogError ''Failed to create Deepgram connection'']))"

text \<open>
  What the \<^verbatim>\<open>transcript\<close> event of the backend stream carries:
  \<^verbatim>\<open>data.channel?.alternatives?.[0]\<close> when there is one (its text empty when
  \<^verbatim>\<open>transcript\<close> is missing) and the fields of \<^verbatim>\<open>data\<close> the listener reads.
\<close>

record alternative =
  a_transcript :: string
  a_confidence :: real
  a_words :: "string list option"

record transcript_data =
  d_alternative :: "alternative option"
  d_is_final :: bool
  d_duration :: real
  d_start :: real
  d_channel_index :: nat

text \<open>
  \<^verbatim>\<open>SlackService.sendMessage\<close> and \<^verbatim>\<open>DeepgramService.sendToSlack\<close>; \<open>post_ok\<close>
  says whether \<^verbatim>\<open>chat.postMessage\<close> succeeds.
\<close>

definition sendMessage :: "slack_data \<Rightarrow> bool \<Rightarrow> (js_error + unit) \<times> effect list" where
  "sendMessage msg post_ok =
     (if post_ok then (Inr (), [SlackSend msg])
      else (Inl BackendError, [SlackSend msg, Log LogError ''Failed to send Slack message'']))"

definition sendToSlack :: "slack_data \<Rightarrow> bool \<Rightarrow> effect list" where
  "sendToSlack msg post_ok =
     (case sendMessage msg post_ok of
        (Inr u, es) \<Rightarrow> es
      | (Inl e, es) \<Rightarrow> es @ [Log LogError ''Failed to send transcription to Slack''])"

text \<open>The \<^verbatim>\<open>result\<close> object the listener builds from an event.\<close>

definition result_of ::
  "streaming_options \<Rightarrow> transcript_data \<Rightarrow> alternative \<Rightarrow> int \<Rightarrow> transcript_result" where
  "result_of opts data t now =
     \<lparr>r_sessionId = sessionId opts, r_conversationId = conversationId opts,
      r_transcript = a_transcript t, r_confidence = a_confidence t,
      r_is_final = d_is_final data, r_duration = d_duration data,
      r_start = d_start data, r_channel = d_channel_index data,
      r_words = (case a_words t of None \<Rightarrow> [] | Some w \<Rightarrow> w),
      r_timestamp = now\<rparr>"

text \<open>
  The \<^verbatim>\<open>transcript\<close> listener installed by \<^verbatim>\<open>createStreamingConnection\<close>;
  \<open>cb_ok\<close> says whether the caller's \<^verbatim>\<open>onTranscript\<close> returns or throws.
  Modelled from the spec: the backend stream is the external speech SDK, and it hands
  every interim and final result it produces to this listener.
\<close>

definition on_transcript ::
  "streaming_options \<Rightarrow> transcript_data \<Rightarrow> int \<Rightarrow> bool \<Rightarrow> bool \<Rightarrow> effect list" where
  "on_transcript opts data now cb_ok post_ok =
     (case d_alternative data of
        None \<Rightarrow> []
      | Some t \<Rightarrow>
          if a_transcript t = [] then []
          else
            let result = result_of opts data t now
            in if onTranscript opts \<and> \<not> cb_ok then
                 [OnTranscript result, Log LogError ''Error processing transcript'']
                 @ (if onError opts then [OnError] else [])
               else
                 (if onTranscript opts then [OnTranscript result] else [])
                 @ (if d_is_final data \<and> slackChannel opts \<noteq> [] \<and> trim (a_transcript t) \<noteq> []
                    then sendToSlack
                           \<lparr>s_channel = slackChannel opts, s_transcript = a_transcript t,
                            s_confidence = a_confidence t, s_sessionId = sessionId opts,
                            s_conversationId = conversationId opts,
                            s_duration = d_duration data\<rparr> post_ok
                    else [])
                 @ [Log LogDebug ''Transcript received''])"

fun slack_deliveries :: "effect list \<Rightarrow> slack_data list" where
  "slack_deliveries [] = []"
| "slack_deliveries (SlackSend d # es) = d # slack_deliveries es"
| "slack_deliveries (e # es) = slack_deliveries es"

fun callback_calls :: "effect list \<Rightarrow> transcript_result list" where
  "callback_calls [] = []"
| "callback_calls (OnTranscript r # es) = r # callback_calls es"
| "callback_calls (e # es) = callback_calls es"

section \<open>The client socket\<close>

text \<open>
  The client socket is an object of the \<^verbatim>\<open>ws\<close> library, which \<^verbatim>\<open>package.json\<close>
  declares at \<^verbatim>\<open>^8.14.2\<close>. Two parts of its behaviour decide what the gateway does.

  \<^verbatim>\<open>close(code, data)\<close> returns at once on a socket that is closed or closing. On an
  open socket it first marks the socket closing and then has the close frame built,
  which throws a \<^verbatim>\<open>RangeError\<close> when the reason is longer than 123 bytes; no frame is
  sent then. The effect \<open>WsClose\<close> stands for a close frame that goes out. A socket
  handed to the \<^verbatim>\<open>connection\<close> listener is open; for a connecting socket the call
  gives up the handshake and sends no frame.
\<close>

text \<open>\<^verbatim>\<open>Buffer.byteLength(s)\<close>, the length of the UTF-8 encoding.\<close>

definition byte_length :: "string \<Rightarrow> nat" where
  "byte_length s = sum_list (map (\<lambda>c. if code c < 128 then 1 else 2) s)"

definition ws_close :: "nat \<Rightarrow> nat \<Rightarrow> string \<Rightarrow> (js_error + unit) \<times> nat \<times> effect list" where
  "ws_close rs status reason =
     (if rs = 3 \<or> rs = 2 then (Inr (), rs, [])
      else if rs = 0 then (Inr (), 2, [])
      else if byte_length reason > 123 then (Inl RangeError, 2, [])
      else (Inr (), 2, [WsClose status reason]))"

text \<open>
  The \<^verbatim>\<open>message\<close> event of this version hands the listener the payload of every
  frame as a \<^verbatim>\<open>Buffer\<close>, with a second argument \<^verbatim>\<open>isBinary\<close> that the listener of
  \<^verbatim>\<open>setupWebSocket\<close> does not take: a text frame arrives as the bytes of its UTF-8
  encoding, never as a string.
\<close>

datatype frame = TextFrame string | BinaryFrame buffer

definition utf8 :: "string \<Rightarrow> buffer" where
  "utf8 s = concat (map (\<lambda>c. if code c < 128 then [of_nat (code c)]
                              else [of_nat (192 + code c div 64), of_nat (128 + code c mod 64)]) s)"

fun received :: "frame \<Rightarrow> ws_data" where
  "received (TextFrame s) = Buf (utf8 s)"
| "received (BinaryFrame b) = Buf b"

text \<open>The text of the control message \<^verbatim>\<open>{"type":"stop"}\<close>.\<close>

definition stop_text :: string where
  "stop_text = ''{'' @ [CHR 0x22] @ ''type'' @ [CHR 0x22] @ '':'' @ [CHR 0x22] @ ''stop''
               @ [CHR 0x22] @ ''}''"

section \<open>The gateway\<close>

text \<open>
  The options \<^verbatim>\<open>setupWebSocket\<close> passes for a connection, and its two callbacks:
  each writes to the client socket only while the socket is open.
\<close>

definition gateway_options :: "params \<Rightarrow> streaming_options" where
  "gateway_options ps =
     \<lparr>sessionId = session ps, slackChannel = channel ps, conversationId = conversation ps,
      onTranscript = True, onError = True,
      opt_language = Some (if language ps = [] then ''en-US'' else language ps),
      opt_model = Some (if model ps = [] then ''nova-2'' else model ps)\<rparr>"

fun deliver :: "connectionState \<Rightarrow> effect \<Rightarrow> effect list" where
  "deliver cs (OnTranscript r) = (if ws cs = 1 then [WsSend (MsgTranscript r)] else [])"
| "deliver cs OnError =
     Log LogError (''Deepgram error for connection '' @ cs_id cs)
     # (if ws cs = 1 then [WsSend (MsgError ''Transcription service error'')] else [])"
| "deliver cs e = [e]"

text \<open>A transcript event of the backend stream of a connection, callbacks included.\<close>

definition gateway_transcript ::
  "connectionState \<Rightarrow> transcript_data \<Rightarrow> int \<Rightarrow> bool \<Rightarrow> connectionState \<times> effect list" where
  "gateway_transcript cs data now post_ok =
     (cs, concat (map (deliver cs) (on_transcript (gateway_options (params cs)) data now True post_ok)))"

text \<open>
  The state of \<^verbatim>\<open>setupWebSocket\<close>. The listeners of a connection close over its
  \<^verbatim>\<open>connectionState\<close> object, and the map \<^verbatim>\<open>activeStreams\<close> holds a reference
  to the same object: \<open>objects\<close> is the store of these objects by address,
  \<open>next_addr\<close> the next free address, \<open>activeStreams\<close> the map from connection id to
  address, and \<open>activeConnections\<close> the map of the transcription service.
\<close>

record gateway =
  objects :: "nat \<Rightarrow> connectionState"
  next_addr :: nat
  activeStreams :: "(string \<times> nat) list"
  activeConnections :: service

text \<open>
  \<^verbatim>\<open>cleanup(connectionId, activeStreams)\<close>. What it does to the connection state it
  finds is \<open>close_state\<close>: the backend handle, if there is one, is closed and the
  state is marked inactive.
\<close>

definition close_state :: "connectionState \<Rightarrow> connectionState \<times> effect list" where
  "close_state cs =
     (case deepgramConnection cs of
        None \<Rightarrow> (cs\<lparr>isActive := False\<rparr>, [])
      | Some h \<Rightarrow>
          (cs\<lparr>deepgramConnection := Some (fst (close_handle h)), isActive := False\<rparr>,
           snd (close_handle h)))"

definition cleanup :: "string \<Rightarrow> gateway \<Rightarrow> gateway \<times> effect list" where
  "cleanup connectionId g =
     (case map_of (activeStreams g) connectionId of
        None \<Rightarrow> (g, [])
      | Some a \<Rightarrow>
          (g\<lparr>objects := (objects g)(a := fst (close_state (objects g a))),
             activeStreams := AList.delete connectionId (activeStreams g)\<rparr>,
           snd (close_state (objects g a))
           @ [Log LogInfo (''Cleaned up connection: '' @ connectionId)]))"

text \<open>The constant \<^verbatim>\<open>maxAge\<close> of \<^verbatim>\<open>cleanupInactiveConnections\<close>, in milliseconds.\<close>

definition maxAge :: int where
  "maxAge = 30 * 60 * 1000"

text \<open>
  The loop of \<^verbatim>\<open>cleanupInactiveConnections\<close> over the entries of the map. Deleting
  the entry under the iterator is the only change the body makes to the map, so the loop
  visits the entries present at its start, in order.
\<close>

fun sweep :: "int \<Rightarrow> (string \<times> nat) list \<Rightarrow> gateway \<Rightarrow> gateway \<times> effect list" where
  "sweep now [] g = (g, [])"
| "sweep now ((connectionId, a) # rest) g =
     (let age = now - startTime (objects g a) in
      if \<not> isActive (objects g a) \<or> age > maxAge then
        (case cleanup connectionId g of
           (g1, es1) \<Rightarrow>
             (case sweep now rest g1 of
                (g2, es2) \<Rightarrow>
                  (g2, Log LogInfo (''Cleaning up inactive connection: '' @ connectionId)
                       # es1 @ es2)))
      else sweep now rest g)"

definition cleanupInactiveConnections :: "int \<Rightarrow> gateway \<Rightarrow> gateway \<times> effect list" where
  "cleanupInactiveConnections now g = sweep now (activeStreams g) g"

text \<open>The reason \<^verbatim>\<open>`Invalid parameters: ${validation.errors.join(', ')}`\<close>.\<close>

definition invalid_reason :: "string list \<Rightarrow> string" where
  "invalid_reason errors = ''Invalid parameters: '' @ join '', '' errors"

text \<open>
  The \<^verbatim>\<open>connection\<close> listener of \<^verbatim>\<open>setupWebSocket\<close>, for the query of the request,
  the generated \<^verbatim>\<open>connectionId\<close>, the time and the outcome of the backend set-up. The
  whole body is inside a \<^verbatim>\<open>try\<close>: an exception, that of \<^verbatim>\<open>ws.close\<close> included, is
  logged and followed by \<^verbatim>\<open>ws.close(1011, 'Internal server error')\<close>.
\<close>

definition on_connection ::
  "query \<Rightarrow> string \<Rightarrow> int \<Rightarrow> bool \<Rightarrow> gateway \<Rightarrow> gateway \<times> effect list" where
  "on_connection q connectionId now live_ok g =
     (let ps = sanitizeConnectionParams q; validation = validateConnectionParams ps in
      if \<not> fst validation then
        (case ws_close 1 1008 (invalid_reason (snd validation)) of
           (Inr u, rs, es) \<Rightarrow> (g, es)
         | (Inl e, rs, es) \<Rightarrow>
             (g, es @ [Log LogError ''Error setting up WebSocket connection'']
                 @ snd (snd (ws_close rs 1011 ''Internal server error''))))
      else
        let a = next_addr g;
            cs = \<lparr>cs_id = connectionId, ws = 1, params = ps, deepgramConnection = None,
                  isActive = True, startTime = now, audioChunks = 0, totalBytes = 0\<rparr>;
            info = Log LogInfo (''New WebSocket connection: '' @ connectionId)
        in (case createStreamingConnection (gateway_options ps) live_ok now (activeConnections g) of
              (Inl e, conns, es) \<Rightarrow>
                (case ws_close 1 1011 ''Internal server error'' of
                   (r, rs, ces) \<Rightarrow>
                     (g\<lparr>objects := (objects g)(a := cs\<lparr>ws := rs\<rparr>), next_addr := Suc a,
                        activeStreams := AList.update connectionId a (activeStreams g),
                        activeConnections := conns\<rparr>,
                      info # es @ [Log LogError ''Error setting up WebSocket connection'']
                      @ ces))
            | (Inr h, conns, es) \<Rightarrow>
                (g\<lparr>objects := (objects g)(a := cs\<lparr>deepgramConnection := Some h\<rparr>),
                   next_addr := Suc a,
                   activeStreams := AList.update connectionId a (activeStreams g),
                   activeConnections := conns\<rparr>,
                 info # es @ [WsSend (MsgConnected connectionId (session ps)
                                        ''Connected to transcription service'')])))"

text \<open>The gateway before any connection.\<close>

definition blank_state :: connectionState where
  "blank_state = \<lparr>cs_id = [], ws = 3,
     params = \<lparr>channel = [], session = [], conversation = [], user = [], language = [],
               model = []\<rparr>,
     deepgramConnection = None, isActive = False, startTime = 0, audioChunks = 0,
     totalBytes = 0\<rparr>"

definition empty_gateway :: gateway where
  "empty_gateway = \<lparr>objects = (\<lambda>a. blank_state), next_addr = 0, activeStreams = [],
     activeConnections = []\<rparr>"

section \<open>Events of one connection\<close>

text \<open>
  What can happen to a connection once it is set up: a message of the client, the backend
  stream opening or closing, and a \<^verbatim>\<open>cleanup\<close> of the connection (by the sweep, which
  leaves the client socket open). Modelled from the spec: the stream only opens from
  \<open>Opening\<close> (\<open>Opening -> Open\<close>), there is no reconnect, and a stream that has closed is
  \<open>Closed\<close>.
\<close>

datatype conn_event = Message ws_data | BackendOpen | BackendClosed | CleanedUp

definition backend_open :: "nat \<Rightarrow> nat" where
  "backend_open rs = (if rs = 0 then 1 else rs)"

fun conn_step :: "connectionState \<Rightarrow> conn_event \<Rightarrow> connectionState \<times> effect list" where
  "conn_step cs (Message data) = on_message cs data"
| "conn_step cs BackendOpen =
     (cs\<lparr>deepgramConnection := map_option (\<lambda>h. h\<lparr>readyState := backend_open (readyState h)\<rparr>)
                                  (deepgramConnection cs)\<rparr>, [])"
| "conn_step cs BackendClosed =
     (cs\<lparr>deepgramConnection := map_option (\<lambda>h. h\<lparr>readyState := 3\<rparr>) (deepgramConnection cs)\<rparr>, [])"
| "conn_step cs CleanedUp = close_state cs"

fun conn_run :: "connectionState \<Rightarrow> conn_event list \<Rightarrow> connectionState \<times> effect list" where
  "conn_run cs [] = (cs, [])"
| "conn_run cs (e # es) =
     (case conn_step cs e of
        (cs1, out1) \<Rightarrow> (case conn_run cs1 es of (cs2, out2) \<Rightarrow> (cs2, out1 @ out2)))"

section \<open>Events of the gateway\<close>

datatype gateway_event =
    Connect query string int bool
  | ClientMessage nat ws_data
  | ClientClosed nat
  | SocketError nat
  | StreamOpened nat
  | StreamClosed nat
  | Sweep int

text \<open>
  The backend stream's own \<^verbatim>\<open>close\<close> listener deletes the service's entry of the
  session; the connection's \<^verbatim>\<open>close\<close> and \<^verbatim>\<open>error\<close> listeners call
  \<^verbatim>\<open>cleanup\<close>.
\<close>

fun gateway_step :: "gateway \<Rightarrow> gateway_event \<Rightarrow> gateway \<times> effect list" where
  "gateway_step g (Connect q connectionId now live_ok) = on_connection q connectionId now live_ok g"
| "gateway_step g (ClientMessage a data) =
     (case on_message (objects g a) data of
        (cs, es) \<Rightarrow> (g\<lparr>objects := (objects g)(a := cs)\<rparr>, es))"
| "gateway_step g (ClientClosed a) =
     (case cleanup (cs_id (objects g a)) (g\<lparr>objects := (objects g)(a := (objects g a)\<lparr>ws := 3\<rparr>)\<rparr>) of
        (g1, es) \<Rightarrow> (g1, Log LogInfo (''WebSocket connection closed: '' @ cs_id (objects g a)) # es))"
| "gateway_step g (SocketError a) =
     (case cleanup (cs_id (objects g a)) g of
        (g1, es) \<Rightarrow> (g1, Log LogError (''WebSocket error for '' @ cs_id (objects g a)) # es))"
| "gateway_step g (StreamOpened a) =
     (g\<lparr>objects := (objects g)(a := fst (conn_step (objects g a) BackendOpen))\<rparr>, [])"
| "gateway_step g (StreamClosed a) =
     (g\<lparr>objects := (objects g)(a := fst (conn_step (objects g a) BackendClosed)),
        activeConnections := AList.delete (session (params (objects g a))) (activeConnections g)\<rparr>,
      [Log LogInfo (''Deepgram connection closed for session: '' @ session (params (objects g a)))])"
| "gateway_step g (Sweep now) = cleanupInactiveConnections now g"

fun gateway_run :: "gateway \<Rightarrow> gateway_event list \<Rightarrow> gateway" where
  "gateway_run g [] = g"
| "gateway_run g (e # es) = gateway_run (fst (gateway_step g e)) es"

text \<open>
  The invariant of the reachable states: the map holds one entry for an id, every address
  in it is allocated, no two ids share an object, and a registered object is marked
  active. The events left out of \<open>gateway_event\<close> (transcripts and errors of the backend,
  the keepalive probe) change neither \<^verbatim>\<open>activeStreams\<close> nor an \<^verbatim>\<open>isActive\<close> flag.
\<close>

definition registered :: "gateway \<Rightarrow> bool" where
  "registered g =
     (distinct (map fst (activeStreams g)) \<and> distinct (map snd (activeStreams g))
      \<and> list_all (\<lambda>(k, a). a < next_addr g \<and> isActive (objects g a)) (activeStreams g))"

text \<open>
  The sweep as the specification words it, \<open>sweep(maxIdle)\<close>: the entries that stay are
  those whose age does not exceed \<open>maxIdle\<close>.
\<close>

definition spec_sweep :: "int \<Rightarrow> int \<Rightarrow> gateway \<Rightarrow> (string \<times> nat) list" where
  "spec_sweep maxIdle now g =
     filter (\<lambda>(k, a). now - startTime (objects g a) \<le> maxIdle) (activeStreams g)"

section \<open>Notions used by the properties\<close>

text \<open>A value that passes \<^verbatim>\<open>!input || typeof input !== 'string'\<close>: a non-empty string.\<close>

definition truthy_string :: "js_value \<Rightarrow> bool" where
  "truthy_string v = (case v of JString s \<Rightarrow> s \<noteq> [] | _ \<Rightarrow> False)"

definition all_values :: "params \<Rightarrow> string" where
  "all_values p = channel p @ session p @ conversation p @ user p @ language p @ model p"

text \<open>The text of the first alternative of a transcript event, empty when there is none.\<close>

definition transcript_text :: "transcript_data \<Rightarrow> string" where
  "transcript_text data = (case d_alternative data of None \<Rightarrow> [] | Some t \<Rightarrow> a_transcript t)"

section \<open>Example inputs\<close>

definition example_query :: query where
  "example_query = \<lparr>q_channel = JString ''#test'', q_session = JString ''abc-123'',
     q_conversation = Undefined, q_user = JString ''<a>'', q_language = JString ''en-US'',
     q_model = JArray [''nova'', ''base'']\<rparr>"

definition example_params :: params where
  "example_params = \<lparr>channel = ''#test'', session = ''abc-123'', conversation = [],
     user = ''&lta&gt;'', language = ''en-US'', model = []\<rparr>"

text \<open>A connection as \<^verbatim>\<open>setupWebSocket\<close> leaves it, once the backend stream is open.\<close>

definition example_state :: connectionState where
  "example_state = \<lparr>cs_id = ''c1'', ws = 1, params = example_params,
     deepgramConnection = Some \<lparr>readyState = 1\<rparr>, isActive = True, startTime = 0,
     audioChunks = 0, totalBytes = 0\<rparr>"

definition example_gateway :: gateway where
  "example_gateway = \<lparr>objects = (\<lambda>a. blank_state)(0 := example_state), next_addr = 1,
     activeStreams = [(''c1'', 0)],
     activeConnections = [(''abc-123'', \<lparr>cd_sessionId = ''abc-123'', cd_slackChannel = ''#test'',
        cd_conversationId = [], cd_createdAt = 0\<rparr>)]\<rparr>"

text \<open>
  A query whose raw values break the three format rules and are repaired by the
  sanitizer, and a query that fails four rules at once.
\<close>

definition raw_bad_query :: query where
  "raw_bad_query = \<lparr>q_channel = JString ''#te;st'', q_session = JString ''abc-123'',
     q_conversation = Undefined, q_user = Undefined, q_language = JString ''en-US*'',
     q_model = JString ''nova*''\<rparr>"

definition all_bad_query :: query where
  "all_bad_query = \<lparr>q_channel = Undefined, q_session = Undefined,
     q_conversation = Undefined, q_user = Undefined, q_language = JString ''zz9'',
     q_model = JString ''foo''\<rparr>"

text \<open>A final result with text, and an interim result of silence (its text is empty).\<close>

definition final_event :: transcript_data where
  "final_event = \<lparr>d_alternative = Some \<lparr>a_transcript = ''hello'', a_confidence = 1, a_words = None\<rparr>,
     d_is_final = True, d_duration = 2, d_start = 0, d_channel_index = 0\<rparr>"

definition silent_event :: transcript_data where
  "silent_event = \<lparr>d_alternative = Some \<lparr>a_transcript = [], a_confidence = 0, a_words = None\<rparr>,
     d_is_final = False, d_duration = 1, d_start = 0, d_channel_index = 0\<rparr>"

section \<open>Properties of audio frames\<close>

lemma validateAudioStream_handler:
  "fst (validateAudioStream b handler_options) \<longleftrightarrow> 160 \<le> length b \<and> length b \<le> 8192"
  by (auto simp: validateAudioStream_def handler_options_def Let_def)

text \<open>
  Claim C2. A binary frame whose length is between 160 and 8192 bytes (both included) is
  handed to the backend stream exactly when the handle exists and reports connected at
  the call; a frame outside the bounds is never handed over, nothing is written to the
  client for it, and the client socket is neither closed nor changed.
\<close>

theorem audio_frame_forwarding:
  "(160 \<le> length b \<and> length b \<le> 8192 \<longrightarrow>
      forwarded (snd (on_message cs (Buf b))) = (if handle_ready cs then [b] else []))
   \<and> (\<not> (160 \<le> length b \<and> length b \<le> 8192) \<longrightarrow>
      forwarded (snd (on_message cs (Buf b))) = []
      \<and> client_messages (snd (on_message cs (Buf b))) = []
      \<and> \<not> closes_client (snd (on_message cs (Buf b)))
      \<and> ws (fst (on_message cs (Buf b))) = ws cs)"
  by (simp add: on_message_def handleWebSocketMessage_def validateAudioStream_handler
        handle_ready_def isConnected_def sendAudio_def Let_def split: option.split)

theorem audio_frame_forwarding_witness:
  "length (replicate 160 (0::8 word)) = 160
   \<and> forwarded (snd (on_message example_state (Buf (replicate 160 0)))) = [replicate 160 0]
   \<and> forwarded (snd (on_message (example_state\<lparr>deepgramConnection := Some \<lparr>readyState = 2\<rparr>\<rparr>)
        (Buf (replicate 8192 0)))) = []
   \<and> forwarded (snd (on_message example_state (Buf (replicate 50 0)))) = []
   \<and> client_messages (snd (on_message example_state (Buf (replicate 50 0)))) = []
   \<and> \<not> closes_client (snd (on_message example_state (Buf (replicate 50 0))))
   \<and> ws (fst (on_message example_state (Buf (replicate 50 0)))) = 1"
  using audio_frame_forwarding [of "replicate 160 0" example_state]
        audio_frame_forwarding [of "replicate 8192 0"
          "example_state\<lparr>deepgramConnection := Some \<lparr>readyState = 2\<rparr>\<rparr>"]
        audio_frame_forwarding [of "replicate 50 0" example_state]
  by (simp add: example_state_def handle_ready_def isConnected_def)

text \<open>
  Claim C10. A frame that passes the size validation adds one to \<open>audioChunks\<close> and its
  length to \<open>totalBytes\<close> and changes nothing else, whether or not the backend handle is
  connected; a frame that fails the validation leaves the whole connection state as it
  was.
\<close>

theorem frame_counters:
  "(160 \<le> length b \<and> length b \<le> 8192 \<longrightarrow>
      fst (on_message cs (Buf b)) =
        cs\<lparr>audioChunks := audioChunks cs + 1, totalBytes := totalBytes cs + length b\<rparr>)
   \<and> (\<not> (160 \<le> length b \<and> length b \<le> 8192) \<longrightarrow> fst (on_message cs (Buf b)) = cs)"
  by (simp add: on_message_def handleWebSocketMessage_def validateAudioStream_handler
        isConnected_def sendAudio_def Let_def split: option.split)

theorem frame_counters_witness:
  "length (replicate 4096 (0::8 word)) = 4096
   \<and> fst (on_message (example_state\<lparr>deepgramConnection := Some \<lparr>readyState = 3\<rparr>\<rparr>)
        (Buf (replicate 4096 0)))
     = example_state\<lparr>deepgramConnection := Some \<lparr>readyState = 3\<rparr>, audioChunks := 1,
         totalBytes := 4096\<rparr>
   \<and> fst (on_message example_state (Buf (replicate 9000 0))) = example_state"
  using frame_counters [of "replicate 4096 0"
          "example_state\<lparr>deepgramConnection := Some \<lparr>readyState = 3\<rparr>\<rparr>"]
        frame_counters [of "replicate 9000 0" example_state]
  by (simp add: example_state_def)

section \<open>Properties of the sanitizer\<close>

lemma set_replace_first: "set (replace_first alts s) \<subseteq> set s"
proof (induction s)
  case Nil show ?case by simp
next
  case (Cons c cs)
  show ?case
  proof (cases "find (\<lambda>k. ci_prefix k (c # cs)) alts")
    case None with Cons show ?thesis by auto
  next
    case (Some k)
    then show ?thesis using set_drop_subset [of "length k" "c # cs"] by simp
  qed
qed

lemma set_remove_matches: "set (remove_matches m k s) \<subseteq> set s"
  by (induction m k s rule: remove_matches.induct) (auto split: option.splits nat.splits)

lemma set_replace_all: "set (replace_all c r s) \<subseteq> (set s - {c}) \<union> set r"
  by (induction s) (auto simp: replace_all_def)

lemma escape_html_chars:
  "CHR ''<'' \<notin> set (escape_html s) \<and> CHR ''>'' \<notin> set (escape_html s)
   \<and> CHR 0x22 \<notin> set (escape_html s)"
proof -
  let ?a = "replace_all CHR ''<'' ''&lt;'' s"
  let ?b = "replace_all CHR ''>'' ''&gt;'' ?a"
  let ?c = "replace_all (CHR 0x22) ''&quot;'' ?b"
  let ?d = "replace_all (CHR 0x27) ''&#x27;'' ?c"
  have 1: "CHR ''<'' \<notin> set ?a" using set_replace_all [of "CHR ''<''" "''&lt;''" s] by auto
  have 2: "CHR ''<'' \<notin> set ?b \<and> CHR ''>'' \<notin> set ?b"
    using 1 set_replace_all [of "CHR ''>''" "''&gt;''" ?a] by auto
  have 3: "CHR ''<'' \<notin> set ?c \<and> CHR ''>'' \<notin> set ?c \<and> CHR 0x22 \<notin> set ?c"
    using 2 set_replace_all [of "CHR 0x22" "''&quot;''" ?b] by auto
  have 4: "CHR ''<'' \<notin> set ?d \<and> CHR ''>'' \<notin> set ?d \<and> CHR 0x22 \<notin> set ?d"
    using 3 set_replace_all [of "CHR 0x27" "''&#x27;''" ?c] by auto
  show ?thesis
    unfolding escape_html_def
    using 4 set_replace_all [of "CHR ''/''" "''&#x2F;''" ?d] by auto
qed

text \<open>
  Once the markup characters are escaped and the control characters filtered out, every
  later step of the sanitizer only removes characters.
\<close>

lemma sanitize_string_chars:
  assumes "\<not> allowHtml opts" and "c \<in> set (sanitize_string s opts)"
  shows "\<not> forbidden c"
proof -
  define s2 where
    "s2 = (if length (trim s) > maxLength opts then take (maxLength opts) (trim s) else trim s)"
  define s4 where
    "s4 = (if \<not> allowSpecialChars opts then
             filter (\<lambda>c. is_alnum c \<or> is_space c \<or> c \<in> set ''-_@#.'') (escape_html s2)
           else escape_html s2)"
  define s5 where "s5 = filter (\<lambda>c. \<not> is_control c) s4"
  have res: "sanitize_string s opts =
      remove_matches on_handler 0 (remove_matches javascript_colon 0
        (remove_matches script_tag 0 (replace_first sqlPattern2 (replace_first sqlPattern1 s5))))"
    using assms(1) by (simp add: sanitize_string_def Let_def s2_def s4_def s5_def)
  have "set (sanitize_string s opts) \<subseteq> set s5"
    unfolding res
    using set_remove_matches [of on_handler 0] set_remove_matches [of javascript_colon 0]
      set_remove_matches [of script_tag 0] set_replace_first [of sqlPattern2]
      set_replace_first [of sqlPattern1 s5]
    by (meson subset_trans)
  with assms(2) have c5: "c \<in> set s5" by auto
  then have nc: "\<not> is_control c" and c4: "c \<in> set s4" by (auto simp: s5_def)
  from c4 have "c \<in> set (escape_html s2)" by (auto simp: s4_def split: if_splits)
  with escape_html_chars [of s2] nc show ?thesis by (auto simp: forbidden_def)
qed

lemma sanitizeInput_chars:
  "\<not> allowHtml opts \<Longrightarrow> list_all (\<lambda>c. \<not> forbidden c) (sanitizeInput v opts)"
  by (cases v) (auto simp: sanitizeInput_def list_all_iff dest: sanitize_string_chars)

lemma example_query_sanitized: "sanitizeConnectionParams example_query = example_params"
  by code_simp

lemma example_params_valid: "validateConnectionParams example_params = (True, [])"
  by code_simp

text \<open>
  Claim C9. With \<open>allowHtml\<close> false, the value returned by \<open>sanitizeInput\<close> holds none of
  the characters \<open><\<close>, \<open>>\<close> and the double quote and no control character
  (\<open>0x00\<close> to \<open>0x1F\<close>, \<open>0x7F\<close>), whatever the other options are; the result is the empty
  string for every input that is not a non-empty string; and so the six values of a
  parameter set that passes the connection validation hold none of these characters.
\<close>

theorem sanitizeInput_restrictions:
  "(\<not> allowHtml opts \<longrightarrow> list_all (\<lambda>c. \<not> forbidden c) (sanitizeInput v opts))
   \<and> (\<not> truthy_string v \<longrightarrow> sanitizeInput v opts = [])
   \<and> (fst (validateConnectionParams (sanitizeConnectionParams q)) \<longrightarrow>
        list_all (\<lambda>c. \<not> forbidden c) (all_values (sanitizeConnectionParams q)))"
proof -
  have a: "\<not> allowHtml (max_len n)" for n by (simp add: max_len_def)
  have "list_all (\<lambda>c. \<not> forbidden c) (all_values (sanitizeConnectionParams q))"
    by (simp add: all_values_def sanitizeConnectionParams_def sanitizeInput_chars [OF a])
  moreover have "\<not> truthy_string v \<Longrightarrow> sanitizeInput v opts = []"
    by (cases v) (auto simp: truthy_string_def sanitizeInput_def)
  ultimately show ?thesis using sanitizeInput_chars [of opts v] by blast
qed

theorem sanitizeInput_restrictions_witness:
  "sanitizeInput (JString ''<a>'') (max_len 100) = ''&lta&gt;''
   \<and> list_all (\<lambda>c. \<not> forbidden c) (sanitizeInput (JString ''<a>'') (max_len 100))
   \<and> sanitizeInput (JArray [''nova'', ''base'']) (max_len 100) = []
   \<and> fst (validateConnectionParams (sanitizeConnectionParams example_query))
   \<and> list_all (\<lambda>c. \<not> forbidden c) (all_values (sanitizeConnectionParams example_query))"
proof -
  have 1: "sanitizeInput (JString ''<a>'') (max_len 100) = ''&lta&gt;''"
    using example_query_sanitized
    by (simp add: sanitizeConnectionParams_def example_query_def example_params_def)
  have 2: "\<not> allowHtml (max_len 100)" by (simp add: max_len_def)
  have 3: "\<not> truthy_string (JArray [''nova'', ''base''])" by (simp add: truthy_string_def)
  have 4: "fst (validateConnectionParams (sanitizeConnectionParams example_query))"
    by (simp add: example_query_sanitized example_params_valid)
  from sanitizeInput_restrictions [of "max_len 100" "JString ''<a>''" example_query]
       sanitizeInput_restrictions [of "max_len 100" "JArray [''nova'', ''base'']" example_query]
       1 2 3 4
  show ?thesis by simp
qed

section \<open>Properties of connection set-up\<close>

text \<open>
  The validation reads the sanitized values. A required value fails when it is empty, an
  optional one only when it is present and ill-formed.
\<close>

lemma validation_fails_iff:
  "\<not> fst (validateConnectionParams p) \<longleftrightarrow>
     channel p = [] \<or> session p = [] \<or> \<not> channel_format (channel p)
     \<or> (language p \<noteq> [] \<and> \<not> language_format (language p))
     \<or> (model p \<noteq> [] \<and> model p \<notin> set validModels)"
  by (auto simp: validateConnectionParams_def Let_def channel_format_def)

subsection \<open>The length of the close reason\<close>

lemma byte_length_append: "byte_length (xs @ ys) = byte_length xs + byte_length ys"
  by (simp add: byte_length_def)

lemma byte_length_Nil: "byte_length [] = 0"
  by (simp add: byte_length_def)

lemma message_lengths:
  "byte_length ''Invalid parameters: '' = 20"
  "byte_length '', '' = 2"
  "byte_length ''channel parameter is required'' = 29"
  "byte_length ''session parameter is required'' = 29"
  "byte_length ''invalid channel format'' = 22"
  "byte_length ''invalid language format'' = 23"
  "byte_length ''invalid model specified'' = 23"
  by code_simp+

lemma reason_length_generic:
  assumes "byte_length h = 20" and "byte_length sep = 2"
    and "byte_length m1 = 29" and "byte_length m2 = 29" and "byte_length m3 = 22"
    and "byte_length m4 = 23" and "byte_length m5 = 23"
    and "\<not> (a \<and> c)"
  shows "byte_length (h @ join sep ((if a then [m1] else []) @ (if b then [m2] else [])
           @ (if c then [m3] else []) @ (if d then [m4] else []) @ (if e then [m5] else [])))
         \<le> 123 \<longleftrightarrow> \<not> (a \<and> b \<and> d \<and> e)"
  using assms by (auto simp: byte_length_append byte_length_Nil)

text \<open>
  The reason fits a close frame in every case but one: channel and session both missing
  together with an ill-formed language and an unknown model.
\<close>

lemma reason_fits_iff:
  "byte_length (invalid_reason (snd (validateConnectionParams p))) \<le> 123 \<longleftrightarrow>
     \<not> (channel p = [] \<and> session p = []
        \<and> (language p \<noteq> [] \<and> \<not> language_format (language p))
        \<and> (model p \<noteq> [] \<and> model p \<notin> set validModels))"
  unfolding validateConnectionParams_def invalid_reason_def Let_def snd_conv
  by (rule reason_length_generic [OF message_lengths]) blast

lemma ws_close_open:
  "ws_close (Suc 0) status reason =
     (if byte_length reason > 123 then (Inl RangeError, 2, [])
      else (Inr (), 2, [WsClose status reason]))"
  by (simp add: ws_close_def)

lemma ws_close_closing: "ws_close 2 status reason = (Inr (), 2, [])"
  by (simp add: ws_close_def)

lemma on_connection_invalid:
  assumes "\<not> fst (validateConnectionParams (sanitizeConnectionParams q))"
  shows "on_connection q connectionId now live_ok g =
     (g, if byte_length (invalid_reason (snd (validateConnectionParams (sanitizeConnectionParams q))))
            > 123
         then [Log LogError ''Error setting up WebSocket connection'']
         else [WsClose 1008
                 (invalid_reason (snd (validateConnectionParams (sanitizeConnectionParams q))))])"
  using assms by (simp add: on_connection_def Let_def ws_close_open ws_close_closing)

subsection \<open>Raw values that the sanitizer repairs\<close>

lemma raw_bad_sanitized:
  "sanitizeConnectionParams raw_bad_query =
     \<lparr>channel = ''#test'', session = ''abc-123'', conversation = [], user = [],
      language = ''en-US'', model = ''nova''\<rparr>"
  by code_simp

lemma raw_bad_valid:
  "validateConnectionParams \<lparr>channel = ''#test'', session = ''abc-123'', conversation = [],
      user = [], language = ''en-US'', model = ''nova''\<rparr> = (True, [])"
  by code_simp

lemma raw_values_ill_formed:
  "\<not> channel_format ''#te;st'' \<and> \<not> language_format ''en-US*'' \<and> ''nova*'' \<notin> set validModels"
  by code_simp

text \<open>
  Claim C3 as stated fails: the validation reads the sanitized values, so a connection
  whose channel, language and model as sent break the three format rules is registered
  and acknowledged, the sanitizer having removed the offending character of each.
\<close>

theorem sanitized_before_validation_counterexample:
  "q_channel raw_bad_query = JString ''#te;st'' \<and> \<not> channel_format ''#te;st''
   \<and> q_language raw_bad_query = JString ''en-US*'' \<and> \<not> language_format ''en-US*''
   \<and> q_model raw_bad_query = JString ''nova*'' \<and> ''nova*'' \<notin> set validModels
   \<and> activeStreams (fst (on_connection raw_bad_query ''c1'' 0 True empty_gateway)) = [(''c1'', 0)]
   \<and> snd (on_connection raw_bad_query ''c1'' 0 True empty_gateway)
       = [Log LogInfo ''New WebSocket connection: c1'', DgOpen ''nova'' ''en-US'' [''abc-123''],
          WsSend (MsgConnected ''c1'' ''abc-123'' ''Connected to transcription service'')]"
proof -
  have q: "q_channel raw_bad_query = JString ''#te;st''
      \<and> q_language raw_bad_query = JString ''en-US*''
      \<and> q_model raw_bad_query = JString ''nova*''"
    by (simp add: raw_bad_query_def)
  have c: "activeStreams (fst (on_connection raw_bad_query ''c1'' 0 True empty_gateway))
        = [(''c1'', 0)]
      \<and> snd (on_connection raw_bad_query ''c1'' 0 True empty_gateway)
        = [Log LogInfo ''New WebSocket connection: c1'', DgOpen ''nova'' ''en-US'' [''abc-123''],
           WsSend (MsgConnected ''c1'' ''abc-123'' ''Connected to transcription service'')]"
    by (simp add: on_connection_def raw_bad_sanitized raw_bad_valid Let_def
        createStreamingConnection_def gateway_options_def empty_gateway_def)
  from q c raw_values_ill_formed show ?thesis by blast
qed

subsection \<open>Rejection of invalid parameters\<close>

lemma missing_session_sanitized:
  "sanitizeConnectionParams (example_query\<lparr>q_session := Undefined\<rparr>)
     = example_params\<lparr>session := []\<rparr>"
  using example_query_sanitized
  by (simp add: sanitizeConnectionParams_def sanitizeInput_def example_params_def)

lemma missing_session_invalid:
  "validateConnectionParams (example_params\<lparr>session := []\<rparr>)
     = (False, [''session parameter is required''])"
  by code_simp

lemma missing_session_reason:
  "invalid_reason [''session parameter is required'']
     = ''Invalid parameters: session parameter is required''
   \<and> byte_length ''Invalid parameters: session parameter is required'' = 49"
  by code_simp

text \<open>
  Claim C3, amended. For every connection whose sanitized parameters fail the validation
  (channel or session empty, channel not matching its pattern, a language that is present
  and does not match its pattern, a model that is present and not in the list), the
  gateway state is returned as it was, so no entry is registered, and nothing is written
  to the client, so the connection is never acknowledged as active; the list of errors is
  not empty; and whenever the reason listing them is at most 123 bytes long, the
  connection is closed at once with the code 1008 (policy violation) and that reason, and
  nothing else is done.
\<close>

theorem invalid_parameters_rejected:
  "\<not> fst (validateConnectionParams (sanitizeConnectionParams q)) \<Longrightarrow>
     fst (on_connection q connectionId now live_ok g) = g
     \<and> client_messages (snd (on_connection q connectionId now live_ok g)) = []
     \<and> snd (validateConnectionParams (sanitizeConnectionParams q)) \<noteq> []
     \<and> (byte_length (invalid_reason (snd (validateConnectionParams (sanitizeConnectionParams q))))
          \<le> 123 \<longrightarrow>
        snd (on_connection q connectionId now live_ok g) =
          [WsClose 1008
             (invalid_reason (snd (validateConnectionParams (sanitizeConnectionParams q))))])"
proof -
  assume inv: "\<not> fst (validateConnectionParams (sanitizeConnectionParams q))"
  then have "snd (validateConnectionParams (sanitizeConnectionParams q)) \<noteq> []"
    by (simp add: validateConnectionParams_def Let_def)
  then show ?thesis by (simp add: on_connection_invalid [OF inv])
qed

theorem invalid_parameters_rejected_witness:
  "\<not> fst (validateConnectionParams (sanitizeConnectionParams (example_query\<lparr>q_session := Undefined\<rparr>)))
   \<and> byte_length (invalid_reason (snd (validateConnectionParams
        (sanitizeConnectionParams (example_query\<lparr>q_session := Undefined\<rparr>))))) = 49
   \<and> on_connection (example_query\<lparr>q_session := Undefined\<rparr>) ''c1'' 0 True empty_gateway
       = (empty_gateway, [WsClose 1008 ''Invalid parameters: session parameter is required''])"
proof -
  have h: "\<not> fst (validateConnectionParams
                   (sanitizeConnectionParams (example_query\<lparr>q_session := Undefined\<rparr>)))"
    by (simp add: missing_session_sanitized missing_session_invalid)
  from invalid_parameters_rejected [OF h, of "''c1''" 0 True empty_gateway] h
  show ?thesis
    by (simp add: missing_session_sanitized missing_session_invalid missing_session_reason
        prod_eq_iff)
qed

subsection \<open>The reason that does not fit\<close>

lemma all_bad_sanitized:
  "sanitizeConnectionParams all_bad_query =
     \<lparr>channel = [], session = [], conversation = [], user = [],
      language = ''zz9'', model = ''foo''\<rparr>"
  by code_simp

lemma all_bad_errors:
  "validateConnectionParams \<lparr>channel = [], session = [], conversation = [], user = [],
      language = ''zz9'', model = ''foo''\<rparr>
   = (False, [''channel parameter is required'', ''session parameter is required'',
              ''invalid language format'', ''invalid model specified''])"
  by code_simp

lemma all_bad_reason_length:
  "byte_length (invalid_reason [''channel parameter is required'',
      ''session parameter is required'', ''invalid language format'',
      ''invalid model specified'']) = 130"
  by code_simp

text \<open>
  The reason for four errors at once is 130 bytes long: \<^verbatim>\<open>ws.close(1008, ...)\<close> throws,
  the \<^verbatim>\<open>catch\<close> logs the error, its \<^verbatim>\<open>ws.close(1011, ...)\<close> finds the socket
  closing, and no close frame goes out.
\<close>

lemma long_reason_not_sent:
  "on_connection all_bad_query ''c1'' 0 True empty_gateway
     = (empty_gateway, [Log LogError ''Error setting up WebSocket connection''])"
proof -
  have inv: "\<not> fst (validateConnectionParams (sanitizeConnectionParams all_bad_query))"
    by (simp add: all_bad_sanitized all_bad_errors)
  show ?thesis
    by (simp add: on_connection_invalid [OF inv] all_bad_sanitized all_bad_errors
        all_bad_reason_length)
qed

section \<open>Properties of the stop message\<close>

lemma conn_run_Cons:
  "conn_run cs (e # es) =
     (fst (conn_run (fst (conn_step cs e)) es),
      snd (conn_step cs e) @ snd (conn_run (fst (conn_step cs e)) es))"
  by (simp split: prod.splits)

lemma stop_text_bytes: "length (utf8 stop_text) = 15"
  by code_simp

text \<open>
  Claim C4 fails on the code. The handler takes a control message only when
  \<^verbatim>\<open>typeof data === 'string'\<close>, and the socket hands every text frame over as a
  \<^verbatim>\<open>Buffer\<close>: the 15 bytes of the \<open>stop\<close> message are taken for an audio chunk below
  the minimum and dropped with a warning. On an active connection with an open backend
  stream the backend stream is not closed and no \<open>status: stopped\<close> is sent, and the
  audio frame that follows is handed to the backend stream.
\<close>

theorem stop_frame_not_handled:
  "length (utf8 stop_text) = 15
   \<and> conn_run example_state
        [Message (received (TextFrame stop_text)),
         Message (received (BinaryFrame (replicate 160 0)))]
      = (example_state\<lparr>audioChunks := 1, totalBytes := 160\<rparr>,
         [Log LogWarn ''Invalid audio data from c1'', DgSend (replicate 160 0)])"
proof -
  have 1: "on_message example_state (Buf (utf8 stop_text))
             = (example_state, [Log LogWarn ''Invalid audio data from c1''])"
    by (simp add: on_message_def handleWebSocketMessage_def validateAudioStream_handler
        stop_text_bytes) (simp add: example_state_def)
  have 2: "on_message example_state (Buf (replicate 160 0))
             = (example_state\<lparr>audioChunks := 1, totalBytes := 160\<rparr>,
                [DgSend (replicate 160 0)])"
    by (simp add: on_message_def handleWebSocketMessage_def validateAudioStream_handler
        isConnected_def sendAudio_def example_state_def)
  show ?thesis by (simp add: stop_text_bytes 1 2)
qed

section \<open>Properties of cleanup\<close>

text \<open>
  Claim C8. \<open>cleanup\<close> for a connection id that has no entry returns the state as it is
  and makes no call; and a second \<open>cleanup\<close> for the same id, right after the first,
  changes nothing and makes no call, so two runs leave the state one run leaves.
\<close>

theorem cleanup_idempotent:
  "(map_of (activeStreams g) k = None \<longrightarrow> cleanup k g = (g, []))
   \<and> cleanup k (fst (cleanup k g)) = (fst (cleanup k g), [])"
proof -
  have "map_of (activeStreams (fst (cleanup k g))) k = None"
    by (cases "map_of (activeStreams g) k") (simp_all add: cleanup_def Let_def AList.delete_conv')
  then show ?thesis by (simp add: cleanup_def)
qed

theorem cleanup_idempotent_witness:
  "map_of (activeStreams example_gateway) ''c2'' = None
   \<and> cleanup ''c2'' example_gateway = (example_gateway, [])
   \<and> activeStreams (fst (cleanup ''c1'' example_gateway)) = []
   \<and> snd (cleanup ''c1'' example_gateway) = [DgClose, Log LogInfo ''Cleaned up connection: c1'']
   \<and> cleanup ''c1'' (fst (cleanup ''c1'' example_gateway)) = (fst (cleanup ''c1'' example_gateway), [])"
proof -
  have 1: "map_of (activeStreams example_gateway) ''c2'' = None"
    by (simp add: example_gateway_def)
  have 2: "activeStreams (fst (cleanup ''c1'' example_gateway)) = []
           \<and> snd (cleanup ''c1'' example_gateway) = [DgClose, Log LogInfo ''Cleaned up connection: c1'']"
    by (simp add: cleanup_def close_state_def example_gateway_def example_state_def
        close_handle_def)
  from cleanup_idempotent [of example_gateway "''c2''"]
       cleanup_idempotent [of example_gateway "''c1''"] 1 2
  show ?thesis by simp
qed

section \<open>Properties of transcript events\<close>

lemma slack_deliveries_append:
  "slack_deliveries (xs @ ys) = slack_deliveries xs @ slack_deliveries ys"
  by (induction xs rule: slack_deliveries.induct) auto

lemma callback_calls_append: "callback_calls (xs @ ys) = callback_calls xs @ callback_calls ys"
  by (induction xs rule: callback_calls.induct) auto

lemma client_messages_append:
  "client_messages (xs @ ys) = client_messages xs @ client_messages ys"
  by (induction xs rule: client_messages.induct) auto

lemma sendToSlack_calls:
  "callback_calls (sendToSlack m ok) = [] \<and> slack_deliveries (sendToSlack m ok) = [m]
   \<and> OnError \<notin> set (sendToSlack m ok)
   \<and> concat (map (deliver cs) (sendToSlack m ok)) = sendToSlack m ok
   \<and> client_messages (sendToSlack m ok) = []"
  by (simp add: sendToSlack_def sendMessage_def)

text \<open>
  Claim C5. A transcript event is handed to the notification service only when it is
  final, its text is not empty after trimming and the session has a channel. When the
  hand-over fails, the failure is logged; the calls of the client's callback and of the
  error callback are the same as when it succeeds, and at the gateway the connection
  state is untouched and the messages written to the client are the same.
\<close>

theorem slack_delivery_guard:
  "(slack_deliveries (on_transcript opts data now cb_ok post_ok) \<noteq> [] \<longrightarrow>
      d_is_final data \<and> slackChannel opts \<noteq> [] \<and> trim (transcript_text data) \<noteq> [])
   \<and> (slack_deliveries (on_transcript opts data now cb_ok False) \<noteq> [] \<longrightarrow>
      Log LogError ''Failed to send transcription to Slack''
        \<in> set (on_transcript opts data now cb_ok False))
   \<and> callback_calls (on_transcript opts data now cb_ok False)
       = callback_calls (on_transcript opts data now cb_ok True)
   \<and> (OnError \<in> set (on_transcript opts data now cb_ok False)
       \<longleftrightarrow> OnError \<in> set (on_transcript opts data now cb_ok True))
   \<and> fst (gateway_transcript cs data now False) = cs
   \<and> client_messages (snd (gateway_transcript cs data now False))
       = client_messages (snd (gateway_transcript cs data now True))"
  by (auto simp: on_transcript_def transcript_text_def Let_def slack_deliveries_append
        callback_calls_append client_messages_append sendToSlack_calls gateway_transcript_def
        sendToSlack_def sendMessage_def
      split: option.splits)

lemma final_event_effects:
  "on_transcript (gateway_options example_params) final_event 7 True False =
     [OnTranscript (result_of (gateway_options example_params) final_event
        \<lparr>a_transcript = ''hello'', a_confidence = 1, a_words = None\<rparr> 7),
      SlackSend \<lparr>s_channel = ''#test'', s_transcript = ''hello'', s_confidence = 1,
        s_sessionId = ''abc-123'', s_conversationId = [], s_duration = 2\<rparr>,
      Log LogError ''Failed to send Slack message'',
      Log LogError ''Failed to send transcription to Slack'',
      Log LogDebug ''Transcript received'']"
proof -
  have "trim ''hello'' \<noteq> []" by code_simp
  then show ?thesis
    by (simp add: on_transcript_def final_event_def gateway_options_def example_params_def
        sendToSlack_def sendMessage_def)
qed

theorem slack_delivery_guard_witness:
  "slack_deliveries (on_transcript (gateway_options example_params) final_event 7 True False)
     = [\<lparr>s_channel = ''#test'', s_transcript = ''hello'', s_confidence = 1,
         s_sessionId = ''abc-123'', s_conversationId = [], s_duration = 2\<rparr>]
   \<and> d_is_final final_event
   \<and> slackChannel (gateway_options example_params) = ''#test''
   \<and> trim (transcript_text final_event) \<noteq> []
   \<and> Log LogError ''Failed to send transcription to Slack''
        \<in> set (on_transcript (gateway_options example_params) final_event 7 True False)
   \<and> client_messages (snd (gateway_transcript example_state final_event 7 False))
       = client_messages (snd (gateway_transcript example_state final_event 7 True))"
  using slack_delivery_guard [of "gateway_options example_params" final_event 7 True False
          example_state]
  by (simp add: final_event_effects) (simp add: gateway_options_def example_params_def)

text \<open>
  Claim C6 as stated fails: the listener returns before the callback for a result whose
  first alternative has an empty text, as the interim results of silence have, and for a
  result with no alternative.
\<close>

theorem empty_transcript_counterexample:
  "callback_calls (on_transcript (gateway_options example_params) silent_event 7 True True) = []
   \<and> callback_calls (on_transcript (gateway_options example_params)
        (silent_event\<lparr>d_alternative := None\<rparr>) 7 True True) = []"
  by (simp add: on_transcript_def silent_event_def)

text \<open>
  Claim C6, amended. For every result of the backend stream whose first alternative
  carries a non-empty text, interim or final, the \<open>onTranscript\<close> callback registered at
  open time is called exactly once, with the event built from that result; and for every
  result with no alternative or with an empty text the listener does nothing at all: no
  callback, no notification, no log line.
\<close>

theorem callback_for_every_text:
  "(onTranscript opts \<and> d_alternative data = Some t \<and> a_transcript t \<noteq> [] \<longrightarrow>
      callback_calls (on_transcript opts data now cb_ok post_ok) = [result_of opts data t now])
   \<and> (transcript_text data = [] \<longrightarrow> on_transcript opts data now cb_ok post_ok = [])"
  by (simp add: on_transcript_def Let_def callback_calls_append sendToSlack_calls
        transcript_text_def split: option.splits)

theorem callback_for_every_text_witness:
  "onTranscript (gateway_options example_params)
   \<and> d_alternative (final_event\<lparr>d_is_final := False\<rparr>)
       = Some \<lparr>a_transcript = ''hello'', a_confidence = 1, a_words = None\<rparr>
   \<and> callback_calls (on_transcript (gateway_options example_params)
        (final_event\<lparr>d_is_final := False\<rparr>) 7 True True)
       = [\<lparr>r_sessionId = ''abc-123'', r_conversationId = [], r_transcript = ''hello'',
           r_confidence = 1, r_is_final = False, r_duration = 2, r_start = 0, r_channel = 0,
           r_words = [], r_timestamp = 7\<rparr>]
   \<and> transcript_text silent_event = []
   \<and> on_transcript (gateway_options example_params) silent_event 7 True True = []
   \<and> transcript_text (final_event\<lparr>d_alternative := None\<rparr>) = []
   \<and> on_transcript (gateway_options example_params) (final_event\<lparr>d_alternative := None\<rparr>)
        7 True True = []"
proof -
  have 1: "onTranscript (gateway_options example_params)" by (simp add: gateway_options_def)
  have 2: "d_alternative (final_event\<lparr>d_is_final := False\<rparr>)
             = Some \<lparr>a_transcript = ''hello'', a_confidence = 1, a_words = None\<rparr>"
    by (simp add: final_event_def)
  have 3: "a_transcript \<lparr>a_transcript = ''hello'', a_confidence = 1, a_words = None\<rparr> \<noteq> []"
    by simp
  have 4: "transcript_text silent_event = []"
    by (simp add: transcript_text_def silent_event_def)
  have 5: "transcript_text (final_event\<lparr>d_alternative := None\<rparr>) = []"
    by (simp add: transcript_text_def)
  from callback_for_every_text [of "gateway_options example_params"
         "final_event\<lparr>d_is_final := False\<rparr>"
         "\<lparr>a_transcript = ''hello'', a_confidence = 1, a_words = None\<rparr>" 7 True True]
       callback_for_every_text [of "gateway_options example_params" silent_event _ 7 True True]
       callback_for_every_text [of "gateway_options example_params"
         "final_event\<lparr>d_alternative := None\<rparr>" _ 7 True True]
       1 2 3 4 5
  show ?thesis
    by (simp add: result_of_def) (simp add: final_event_def gateway_options_def example_params_def)
qed

section \<open>Properties of session creation\<close>

text \<open>
  Claim C1 as stated fails: a second creation for a session id that has an entry succeeds,
  the entry of the service is replaced by the new one, and the gateway registers the second
  connection beside the first, both for the same session id.
\<close>

theorem duplicate_session_counterexample:
  "fst (createStreamingConnection (gateway_options example_params) True 5000
          (activeConnections example_gateway)) = Inr \<lparr>readyState = 0\<rparr>
   \<and> map_of (activeConnections example_gateway) ''abc-123''
       = Some \<lparr>cd_sessionId = ''abc-123'', cd_slackChannel = ''#test'',
               cd_conversationId = [], cd_createdAt = 0\<rparr>
   \<and> map_of (fst (snd (createStreamingConnection (gateway_options example_params) True 5000
          (activeConnections example_gateway)))) ''abc-123''
       = Some \<lparr>cd_sessionId = ''abc-123'', cd_slackChannel = ''#test'',
               cd_conversationId = [], cd_createdAt = 5000\<rparr>
   \<and> activeStreams (fst (on_connection example_query ''c2'' 5000 True example_gateway))
       = [(''c1'', 0), (''c2'', 1)]
   \<and> session (params (objects (fst (on_connection example_query ''c2'' 5000 True example_gateway)) 0))
       = ''abc-123''
   \<and> session (params (objects (fst (on_connection example_query ''c2'' 5000 True example_gateway)) 1))
       = ''abc-123''"
  by (simp add: on_connection_def example_query_sanitized example_params_valid Let_def
      createStreamingConnection_def gateway_options_def
      example_gateway_def example_state_def)
     (simp add: example_params_def)

text \<open>
  Claim C1, amended. Whenever the backend accepts the stream, creating a session succeeds
  whether or not the session id already has an entry: the service's map then holds the new
  entry for that id, in place of an earlier one, every other entry is as before, and the
  map keeps at most one entry for each session id. The gateway registers a connection with
  valid parameters under its own connection id and acknowledges it, whatever sessions
  are registered already; the entries of the other connection ids stay as they are.
\<close>

theorem create_replaces_entry:
  "distinct (map fst conns) \<Longrightarrow>
     fst (createStreamingConnection opts True now conns) = Inr \<lparr>readyState = 0\<rparr>
     \<and> map_of (fst (snd (createStreamingConnection opts True now conns))) (sessionId opts)
         = Some \<lparr>cd_sessionId = sessionId opts, cd_slackChannel = slackChannel opts,
                 cd_conversationId = conversationId opts, cd_createdAt = now\<rparr>
     \<and> (\<forall>k. k \<noteq> sessionId opts \<longrightarrow>
           map_of (fst (snd (createStreamingConnection opts True now conns))) k = map_of conns k)
     \<and> distinct (map fst (fst (snd (createStreamingConnection opts True now conns))))
     \<and> (fst (validateConnectionParams (sanitizeConnectionParams q)) \<longrightarrow>
           map_of (activeStreams (fst (on_connection q connectionId now True g))) connectionId
             = Some (next_addr g)
           \<and> (\<forall>k. k \<noteq> connectionId \<longrightarrow>
                 map_of (activeStreams (fst (on_connection q connectionId now True g))) k
                   = map_of (activeStreams g) k)
           \<and> client_messages (snd (on_connection q connectionId now True g))
               = [MsgConnected connectionId (session (sanitizeConnectionParams q))
                    ''Connected to transcription service'']
           \<and> \<not> closes_client (snd (on_connection q connectionId now True g)))"
  by (simp add: createStreamingConnection_def on_connection_def Let_def AList.update_conv'
        AList.distinct_update)

theorem create_replaces_entry_witness:
  "distinct (map fst (activeConnections example_gateway))
   \<and> fst (createStreamingConnection (gateway_options example_params) True 5000
        (activeConnections example_gateway)) = Inr \<lparr>readyState = 0\<rparr>
   \<and> fst (snd (createStreamingConnection (gateway_options example_params) True 5000
        (activeConnections example_gateway)))
       = [(''abc-123'', \<lparr>cd_sessionId = ''abc-123'', cd_slackChannel = ''#test'',
            cd_conversationId = [], cd_createdAt = 5000\<rparr>)]
   \<and> fst (validateConnectionParams (sanitizeConnectionParams example_query))
   \<and> map_of (activeStreams (fst (on_connection example_query ''c2'' 5000 True example_gateway)))
        ''c2'' = Some 1
   \<and> map_of (activeStreams (fst (on_connection example_query ''c2'' 5000 True example_gateway)))
        ''c1'' = Some 0
   \<and> client_messages (snd (on_connection example_query ''c2'' 5000 True example_gateway))
       = [MsgConnected ''c2'' ''abc-123'' ''Connected to transcription service'']"
proof -
  have d: "distinct (map fst (activeConnections example_gateway))"
    by (simp add: example_gateway_def)
  have e: "fst (snd (createStreamingConnection (gateway_options example_params) True 5000
        (activeConnections example_gateway)))
       = [(''abc-123'', \<lparr>cd_sessionId = ''abc-123'', cd_slackChannel = ''#test'',
            cd_conversationId = [], cd_createdAt = 5000\<rparr>)]"
    by (simp add: createStreamingConnection_def gateway_options_def example_params_def
        example_gateway_def)
  have v: "fst (validateConnectionParams (sanitizeConnectionParams example_query))"
    by (simp add: example_query_sanitized example_params_valid)
  have n: "next_addr example_gateway = 1" and a: "activeStreams example_gateway = [(''c1'', 0)]"
    by (simp_all add: example_gateway_def)
  have s: "session (sanitizeConnectionParams example_query) = ''abc-123''"
    by (simp add: example_query_sanitized example_params_def)
  from create_replaces_entry [OF d, of "gateway_options example_params" 5000 example_query
         "''c2''" example_gateway] d e v
  show ?thesis by (simp add: n a s)
qed

section \<open>Properties of the sweep\<close>

lemma delete_filter: "AList.delete k al = filter (\<lambda>(k', a). k' \<noteq> k) al"
  by (auto simp: AList.delete_eq intro: filter_cong)

lemma cleanup_hit:
  assumes "distinct (map fst (activeStreams g))" and "(k, a) \<in> set (activeStreams g)"
  shows "activeStreams (fst (cleanup k g)) = AList.delete k (activeStreams g)"
    and "next_addr (fst (cleanup k g)) = next_addr g"
    and "a' \<noteq> a \<Longrightarrow> objects (fst (cleanup k g)) a' = objects g a'"
    and "startTime (objects (fst (cleanup k g)) a') = startTime (objects g a')"
proof -
  from assms have m: "map_of (activeStreams g) k = Some a" by simp
  show "activeStreams (fst (cleanup k g)) = AList.delete k (activeStreams g)"
    using m by (simp add: cleanup_def Let_def)
  show "next_addr (fst (cleanup k g)) = next_addr g"
    using m by (simp add: cleanup_def Let_def)
  show "a' \<noteq> a \<Longrightarrow> objects (fst (cleanup k g)) a' = objects g a'"
    using m by (simp add: cleanup_def Let_def)
  show "startTime (objects (fst (cleanup k g)) a') = startTime (objects g a')"
    using m by (simp add: cleanup_def close_state_def split: option.splits)
qed

lemma distinct_snd_neq:
  assumes "distinct (map snd al)" and "(k, a) \<in> set al" and "(k', a') \<in> set al" and "k' \<noteq> k"
  shows "a' \<noteq> a"
proof
  assume "a' = a"
  from assms(1) have "inj_on snd (set al)" by (simp add: distinct_map)
  from inj_onD [OF this, of "(k', a')" "(k, a)"] assms(2,3) \<open>a' = a\<close>
  have "(k', a') = (k, a)" by simp
  with assms(4) show False by simp
qed

lemma cleanup_registered:
  assumes "registered g"
  shows "registered (fst (cleanup k g))"
proof (cases "map_of (activeStreams g) k")
  case None then show ?thesis using assms by (simp add: cleanup_def)
next
  case (Some a)
  from assms have dk: "distinct (map fst (activeStreams g))"
    and ds: "distinct (map snd (activeStreams g))"
    and la: "\<forall>(k, a) \<in> set (activeStreams g). a < next_addr g \<and> isActive (objects g a)"
    by (auto simp: registered_def list_all_iff)
  from Some have mem: "(k, a) \<in> set (activeStreams g)" by (rule map_of_SomeD)
  note c = cleanup_hit [OF dk mem]
  have 1: "distinct (map fst (activeStreams (fst (cleanup k g))))"
    using dk by (simp add: c(1) AList.distinct_delete)
  have 2: "distinct (map snd (activeStreams (fst (cleanup k g))))"
    using ds by (simp add: c(1) delete_filter distinct_map_filter)
  have 3: "a' < next_addr (fst (cleanup k g)) \<and> isActive (objects (fst (cleanup k g)) a')"
    if "(k', a') \<in> set (activeStreams (fst (cleanup k g)))" for k' a'
  proof -
    from that have in_al: "(k', a') \<in> set (activeStreams g)" and ne: "k' \<noteq> k"
      by (auto simp: c(1) delete_filter)
    from distinct_snd_neq [OF ds mem in_al ne] have "a' \<noteq> a" .
    with la in_al show ?thesis by (auto simp: c(2) c(3))
  qed
  from 1 2 3 show ?thesis by (auto simp: registered_def list_all_iff)
qed

lemma sweep_Cons:
  "sweep now ((k, a) # rest) g =
     (if \<not> isActive (objects g a) \<or> now - startTime (objects g a) > maxAge
      then (fst (sweep now rest (fst (cleanup k g))),
            Log LogInfo (''Cleaning up inactive connection: '' @ k)
              # snd (cleanup k g) @ snd (sweep now rest (fst (cleanup k g))))
      else sweep now rest g)"
  by (simp add: Let_def split: prod.splits)

text \<open>
  The loop over the entries still to visit: an entry is dropped exactly when the loop
  visits it and finds it older than \<open>maxAge\<close>.
\<close>

lemma sweep_registered:
  "registered g \<Longrightarrow> set rest \<subseteq> set (activeStreams g) \<Longrightarrow> distinct (map fst rest) \<Longrightarrow>
     registered (fst (sweep now rest g))
     \<and> activeStreams (fst (sweep now rest g)) =
         filter (\<lambda>(k, a). (k, a) \<notin> set rest \<or> now - startTime (objects g a) \<le> maxAge)
           (activeStreams g)"
proof (induction rest arbitrary: g)
  case Nil
  then show ?case by simp
next
  case (Cons x rest)
  obtain k a where x: "x = (k, a)" by (cases x)
  from Cons.prems have reg: "registered g" and mem: "(k, a) \<in> set (activeStreams g)"
    and sub: "set rest \<subseteq> set (activeStreams g)" and kn: "k \<notin> fst ` set rest"
    and dr: "distinct (map fst rest)"
    by (auto simp: x)
  from reg have dk: "distinct (map fst (activeStreams g))"
    and act: "isActive (objects g a)"
    using mem by (auto simp: registered_def list_all_iff)
  show ?case
  proof (cases "now - startTime (objects g a) > maxAge")
    case False
    from Cons.IH [OF reg sub dr]
    have ih: "registered (fst (sweep now rest g))"
      "activeStreams (fst (sweep now rest g)) =
         filter (\<lambda>(k, a). (k, a) \<notin> set rest \<or> now - startTime (objects g a) \<le> maxAge)
           (activeStreams g)" by auto
    have "filter (\<lambda>(k, a). (k, a) \<notin> set rest \<or> now - startTime (objects g a) \<le> maxAge)
             (activeStreams g)
          = filter (\<lambda>(k', a'). (k', a') \<notin> set ((k, a) # rest)
                       \<or> now - startTime (objects g a') \<le> maxAge) (activeStreams g)"
      using False by (intro filter_cong) auto
    with ih act False show ?thesis by (simp add: x sweep_Cons del: sweep.simps)
  next
    case True
    let ?g1 = "fst (cleanup k g)"
    note c = cleanup_hit [OF dk mem]
    have reg1: "registered ?g1" by (rule cleanup_registered [OF reg])
    have sub1: "set rest \<subseteq> set (activeStreams ?g1)"
      using sub kn by (force simp: c(1) delete_filter)
    from Cons.IH [OF reg1 sub1 dr]
    have ih: "registered (fst (sweep now rest ?g1))"
      "activeStreams (fst (sweep now rest ?g1)) =
         filter (\<lambda>(k, a). (k, a) \<notin> set rest \<or> now - startTime (objects ?g1 a) \<le> maxAge)
           (activeStreams ?g1)" by auto
    have "filter (\<lambda>(k, a). (k, a) \<notin> set rest \<or> now - startTime (objects ?g1 a) \<le> maxAge)
             (activeStreams ?g1)
          = filter (\<lambda>(k', a'). (k', a') \<notin> set ((k, a) # rest)
                       \<or> now - startTime (objects g a') \<le> maxAge) (activeStreams g)"
    proof -
      have "filter (\<lambda>(k, a). (k, a) \<notin> set rest \<or> now - startTime (objects ?g1 a) \<le> maxAge)
              (activeStreams ?g1)
            = filter (\<lambda>(k', a'). k' \<noteq> k \<and> ((k', a') \<notin> set rest
                       \<or> now - startTime (objects g a') \<le> maxAge)) (activeStreams g)"
        by (simp add: c(1) c(4) delete_filter case_prod_unfold conj_commute)
      also have "\<dots> = filter (\<lambda>(k', a'). (k', a') \<notin> set ((k, a) # rest)
                       \<or> now - startTime (objects g a') \<le> maxAge) (activeStreams g)"
      proof (intro filter_cong refl)
        fix y assume y: "y \<in> set (activeStreams g)"
        obtain k' a' where y': "y = (k', a')" by (cases y)
        have "k' = k \<Longrightarrow> a' = a"
          using y y' mem dk by (auto dest: eq_key_imp_eq_value)
        with True show "(case y of (k', a') \<Rightarrow> k' \<noteq> k \<and> ((k', a') \<notin> set rest
                       \<or> now - startTime (objects g a') \<le> maxAge))
             = (case y of (k', a') \<Rightarrow> (k', a') \<notin> set ((k, a) # rest)
                       \<or> now - startTime (objects g a') \<le> maxAge)"
          by (auto simp: y')
      qed
      finally show ?thesis .
    qed
    with ih True show ?thesis by (simp add: x sweep_Cons del: sweep.simps)
  qed
qed

lemma sweep_all:
  assumes "registered g"
  shows "registered (fst (cleanupInactiveConnections now g))"
    and "activeStreams (fst (cleanupInactiveConnections now g)) = spec_sweep maxAge now g"
proof -
  from assms have d: "distinct (map fst (activeStreams g))" by (simp add: registered_def)
  from sweep_registered [OF assms subset_refl d, of now]
  show "registered (fst (cleanupInactiveConnections now g))"
    by (simp add: cleanupInactiveConnections_def)
  have "filter (\<lambda>(k, a). (k, a) \<notin> set (activeStreams g) \<or> now - startTime (objects g a) \<le> maxAge)
          (activeStreams g) = spec_sweep maxAge now g"
    unfolding spec_sweep_def by (intro filter_cong) auto
  with sweep_registered [OF assms subset_refl d, of now]
  show "activeStreams (fst (cleanupInactiveConnections now g)) = spec_sweep maxAge now g"
    by (simp add: cleanupInactiveConnections_def)
qed

subsection \<open>The invariant of the reachable states\<close>

lemma set_update_subset: "set (AList.update k v al) \<subseteq> insert (k, v) (set al)"
  by (induction al) auto

lemma distinct_snd_update:
  "distinct (map snd al) \<Longrightarrow> a \<notin> snd ` set al \<Longrightarrow> distinct (map snd (AList.update k a al))"
proof (induction al)
  case Nil then show ?case by simp
next
  case (Cons x al)
  obtain k' v' where x: "x = (k', v')" by (cases x)
  show ?case
  proof (cases "k' = k")
    case True with Cons.prems show ?thesis by (auto simp: x)
  next
    case False
    from Cons.prems have ih: "distinct (map snd (AList.update k a al))"
      by (intro Cons.IH) (auto simp: x)
    have "v' \<notin> snd ` set (AList.update k a al)"
    proof
      assume "v' \<in> snd ` set (AList.update k a al)"
      then obtain k2 where "(k2, v') \<in> set (AList.update k a al)" by auto
      with set_update_subset [of k a al] have "(k2, v') = (k, a) \<or> (k2, v') \<in> set al" by auto
      with Cons.prems show False by (force simp: x)
    qed
    with ih False show ?thesis by (simp add: x)
  qed
qed

lemma registered_cong:
  assumes "activeStreams g' = activeStreams g" and "next_addr g' = next_addr g"
    and "\<And>a. isActive (objects g' a) = isActive (objects g a)"
  shows "registered g' = registered g"
  using assms by (simp add: registered_def)

lemma on_message_isActive: "isActive (fst (on_message cs d)) = isActive cs"
  by (cases d)
     (auto simp: on_message_def handleWebSocketMessage_def Let_def
        split: option.splits json_message.splits)

lemma conn_step_isActive:
  "e \<noteq> CleanedUp \<Longrightarrow> isActive (fst (conn_step cs e)) = isActive cs"
  by (cases e) (simp_all add: on_message_isActive)

lemma on_connection_registered:
  assumes "registered g"
  shows "registered (fst (on_connection q cid now ok g))"
proof (cases "fst (validateConnectionParams (sanitizeConnectionParams q))")
  case False
  then show ?thesis using assms by (simp add: on_connection_invalid)
next
  case True
  let ?g' = "fst (on_connection q cid now ok g)"
  let ?a = "next_addr g"
  have as: "activeStreams ?g' = AList.update cid ?a (activeStreams g)"
    and na: "next_addr ?g' = Suc ?a"
    and ob: "\<And>a'. a' \<noteq> ?a \<Longrightarrow> objects ?g' a' = objects g a'"
    and new: "isActive (objects ?g' ?a)"
    using True
    by (auto simp: on_connection_def Let_def createStreamingConnection_def split_beta)
  from assms have dk: "distinct (map fst (activeStreams g))"
    and ds: "distinct (map snd (activeStreams g))"
    and la: "\<forall>(k, a) \<in> set (activeStreams g). a < next_addr g \<and> isActive (objects g a)"
    by (auto simp: registered_def list_all_iff)
  from la have fresh: "?a \<notin> snd ` set (activeStreams g)" by force
  have 1: "distinct (map fst (activeStreams ?g'))"
    using dk by (simp add: as AList.distinct_update)
  have 2: "distinct (map snd (activeStreams ?g'))"
    using distinct_snd_update [OF ds fresh] by (simp add: as)
  have 3: "a' < next_addr ?g' \<and> isActive (objects ?g' a')"
    if "(k', a') \<in> set (activeStreams ?g')" for k' a'
  proof -
    from that set_update_subset [of cid ?a "activeStreams g"]
    have "(k', a') = (cid, ?a) \<or> (k', a') \<in> set (activeStreams g)" by (auto simp: as)
    then show ?thesis
    proof
      assume "(k', a') = (cid, ?a)" then show ?thesis using new by (simp add: na)
    next
      assume m: "(k', a') \<in> set (activeStreams g)"
      with la have "a' < ?a" and "isActive (objects g a')" by auto
      then show ?thesis by (simp add: na ob)
    qed
  qed
  from 1 2 3 show ?thesis by (auto simp: registered_def list_all_iff)
qed

lemma gateway_step_registered:
  assumes "registered g"
  shows "registered (fst (gateway_step g e))"
proof (cases e)
  case (Connect q cid now ok)
  then show ?thesis using on_connection_registered [OF assms] by simp
next
  case (ClientMessage a d)
  have "registered (g\<lparr>objects := (objects g)(a := fst (on_message (objects g a) d))\<rparr>)"
    using assms by (subst registered_cong [of _ g]) (simp_all add: on_message_isActive)
  moreover have "fst (gateway_step g (ClientMessage a d))
      = g\<lparr>objects := (objects g)(a := fst (on_message (objects g a) d))\<rparr>"
    by (simp split: prod.splits)
  ultimately show ?thesis using ClientMessage by simp
next
  case (ClientClosed a)
  have "registered (g\<lparr>objects := (objects g)(a := (objects g a)\<lparr>ws := 3\<rparr>)\<rparr>)"
    using assms by (subst registered_cong [of _ g]) simp_all
  from cleanup_registered [OF this, of "cs_id (objects g a)"]
  show ?thesis using ClientClosed by (simp add: split_beta)
next
  case (SocketError a)
  from cleanup_registered [OF assms, of "cs_id (objects g a)"]
  show ?thesis using SocketError by (simp add: split_beta)
next
  case (StreamOpened a)
  have "registered (g\<lparr>objects := (objects g)(a := fst (conn_step (objects g a) BackendOpen))\<rparr>)"
    using assms
    by (subst registered_cong [of _ g]) (simp_all del: conn_step.simps add: conn_step_isActive)
  then show ?thesis using StreamOpened by simp
next
  case (StreamClosed a)
  have "registered (g\<lparr>objects := (objects g)(a := fst (conn_step (objects g a) BackendClosed)),
        activeConnections := AList.delete (session (params (objects g a))) (activeConnections g)\<rparr>)"
    using assms
    by (subst registered_cong [of _ g]) (simp_all del: conn_step.simps add: conn_step_isActive)
  then show ?thesis using StreamClosed by simp
next
  case (Sweep now)
  then show ?thesis using sweep_all(1) [OF assms] by simp
qed

lemma registered_empty: "registered empty_gateway"
  by (simp add: registered_def empty_gateway_def)

lemma gateway_run_registered: "registered g \<Longrightarrow> registered (gateway_run g evs)"
  by (induction evs arbitrary: g) (simp_all add: gateway_step_registered del: gateway_step.simps)

lemma example_gateway_reachable:
  "gateway_run empty_gateway [Connect example_query ''c1'' 0 True, StreamOpened 0] = example_gateway"
  by (simp add: on_connection_def example_query_sanitized example_params_valid Let_def
      createStreamingConnection_def gateway_options_def empty_gateway_def
      example_gateway_def example_state_def backend_open_def)
     (simp add: example_params_def)

text \<open>
  Claim C7 as stated fails: the threshold is the constant \<open>maxAge\<close> of the function, which
  takes no threshold. With an idle threshold of one minute, the specified sweep removes a
  session that is ten minutes old; the sweep of the code keeps it.
\<close>

theorem configured_threshold_counterexample:
  "gateway_run empty_gateway [Connect example_query ''c1'' 0 True, StreamOpened 0] = example_gateway
   \<and> activeStreams (fst (cleanupInactiveConnections 600000 example_gateway)) = [(''c1'', 0)]
   \<and> spec_sweep 60000 600000 example_gateway = []"
  using example_gateway_reachable
  by (simp add: cleanupInactiveConnections_def example_gateway_def example_state_def
        maxAge_def spec_sweep_def)

text \<open>
  Claim C7, amended. In every state the gateway reaches, the sweep removes exactly the
  registered sessions whose age exceeds thirty minutes (1800000 ms), the fixed threshold
  of the code, and keeps the others in their order.
\<close>

theorem sweep_removes_expired:
  "activeStreams (fst (cleanupInactiveConnections now (gateway_run empty_gateway evs)))
     = spec_sweep 1800000 now (gateway_run empty_gateway evs)"
  using sweep_all(2) [OF gateway_run_registered [OF registered_empty], of now evs]
  by (simp add: maxAge_def)

theorem sweep_removes_expired_witness:
  "activeStreams (fst (cleanupInactiveConnections 1800001
      (gateway_run empty_gateway [Connect example_query ''c1'' 0 True, StreamOpened 0,
         Connect example_query ''c2'' 1000 True]))) = [(''c2'', 1)]
   \<and> activeStreams (fst (cleanupInactiveConnections 1800000
      (gateway_run empty_gateway [Connect example_query ''c1'' 0 True, StreamOpened 0,
         Connect example_query ''c2'' 1000 True]))) = [(''c1'', 0), (''c2'', 1)]"
proof -
  let ?g = "gateway_run empty_gateway [Connect example_query ''c1'' 0 True, StreamOpened 0,
         Connect example_query ''c2'' 1000 True]"
  have g: "?g = fst (on_connection example_query ''c2'' 1000 True example_gateway)"
    using example_gateway_reachable by simp
  have s: "spec_sweep 1800000 1800001 ?g = [(''c2'', 1)]
           \<and> spec_sweep 1800000 1800000 ?g = [(''c1'', 0), (''c2'', 1)]"
    unfolding g
    by (simp add: on_connection_def example_query_sanitized example_params_valid Let_def
        createStreamingConnection_def spec_sweep_def example_gateway_def example_state_def)
  from sweep_removes_expired [of 1800001 "[Connect example_query ''c1'' 0 True, StreamOpened 0,
         Connect example_query ''c2'' 1000 True]"]
       sweep_removes_expired [of 1800000 "[Connect example_query ''c1'' 0 True, StreamOpened 0,
         Connect example_query ''c2'' 1000 True]"] s
  show ?thesis by simp
qed

end
